theory Spec2Isabelle
  imports Complex_Main
begin

section \<open>Messages\<close>

text \<open>
  The message types the handlers of \<^verbatim>\<open>lidar_localization_component.cpp\<close> read and
  write, with the fields the handlers touch. The C++ \<^verbatim>\<open>double\<close> and \<^verbatim>\<open>float\<close> values are
  modelled as real numbers: rounding, infinities and NaN are outside the model.
\<close>

record time_msg =
  stamp_sec :: int
  stamp_nanosec :: nat

record header =
  stamp :: time_msg
  frame_id :: string

record vector3 =
  v_x :: real
  v_y :: real
  v_z :: real

record quaternion =
  q_x :: real
  q_y :: real
  q_z :: real
  q_w :: real

record pose =
  position :: vector3
  orientation :: quaternion

record pose_with_covariance =
  pwc_pose :: pose
  covariance :: "real list"

record pose_with_covariance_stamped =
  pcs_header :: header
  pcs_pose :: pose_with_covariance

record pose_stamped =
  ps_header :: header
  ps_pose :: pose

record path_msg =
  path_header :: header
  poses :: "pose_stamped list"

record transform =
  translation :: vector3
  rotation :: quaternion

record transform_stamped =
  ts_header :: header
  child_frame_id :: string
  ts_transform :: transform

record twist =
  twist_linear :: vector3
  twist_angular :: vector3

text \<open>Of \<^verbatim>\<open>nav_msgs::msg::Odometry\<close> the handler reads the stamp and \<^verbatim>\<open>twist.twist\<close> only.\<close>

record odometry =
  odom_header :: header
  odom_twist :: twist

record point_xyzi =
  p_x :: real
  p_y :: real
  p_z :: real
  intensity :: real

text \<open>A \<^verbatim>\<open>PointCloud2\<close> message, already decoded as \<^verbatim>\<open>pcl::fromROSMsg\<close> decodes it.\<close>

record point_cloud2 =
  pc_header :: header
  pc_points :: "point_xyzi list"

section \<open>Matrices, quaternions and rigid transforms\<close>

record matrix3 =
  m00 :: real
  m01 :: real
  m02 :: real
  m10 :: real
  m11 :: real
  m12 :: real
  m20 :: real
  m21 :: real
  m22 :: real

text \<open>
  An \<^verbatim>\<open>Eigen::Matrix4f\<close>: the block \<^verbatim>\<open>block<3,3>(0,0)\<close>, the entries \<^verbatim>\<open>(0,3)\<close>, \<^verbatim>\<open>(1,3)\<close>,
  \<^verbatim>\<open>(2,3)\<close> and the last row.
\<close>

record matrix4 =
  block33 :: matrix3
  col3 :: vector3
  row3 :: "real \<times> real \<times> real \<times> real"

definition mat_mul :: "matrix3 \<Rightarrow> matrix3 \<Rightarrow> matrix3" where
  "mat_mul a b =
     \<lparr>m00 = m00 a * m00 b + m01 a * m10 b + m02 a * m20 b,
      m01 = m00 a * m01 b + m01 a * m11 b + m02 a * m21 b,
      m02 = m00 a * m02 b + m01 a * m12 b + m02 a * m22 b,
      m10 = m10 a * m00 b + m11 a * m10 b + m12 a * m20 b,
      m11 = m10 a * m01 b + m11 a * m11 b + m12 a * m21 b,
      m12 = m10 a * m02 b + m11 a * m12 b + m12 a * m22 b,
      m20 = m20 a * m00 b + m21 a * m10 b + m22 a * m20 b,
      m21 = m20 a * m01 b + m21 a * m11 b + m22 a * m21 b,
      m22 = m20 a * m02 b + m21 a * m12 b + m22 a * m22 b\<rparr>"

definition mat_vec :: "matrix3 \<Rightarrow> vector3 \<Rightarrow> vector3" where
  "mat_vec a v =
     \<lparr>v_x = m00 a * v_x v + m01 a * v_y v + m02 a * v_z v,
      v_y = m10 a * v_x v + m11 a * v_y v + m12 a * v_z v,
      v_z = m20 a * v_x v + m21 a * v_y v + m22 a * v_z v\<rparr>"

definition mat_scale :: "matrix3 \<Rightarrow> real \<Rightarrow> matrix3" where
  "mat_scale a c =
     \<lparr>m00 = m00 a * c, m01 = m01 a * c, m02 = m02 a * c,
      m10 = m10 a * c, m11 = m11 a * c, m12 = m12 a * c,
      m20 = m20 a * c, m21 = m21 a * c, m22 = m22 a * c\<rparr>"

definition transpose3 :: "matrix3 \<Rightarrow> matrix3" where
  "transpose3 a =
     \<lparr>m00 = m00 a, m01 = m10 a, m02 = m20 a,
      m10 = m01 a, m11 = m11 a, m12 = m21 a,
      m20 = m02 a, m21 = m12 a, m22 = m22 a\<rparr>"

definition vec_add :: "vector3 \<Rightarrow> vector3 \<Rightarrow> vector3" where
  "vec_add a b = \<lparr>v_x = v_x a + v_x b, v_y = v_y a + v_y b, v_z = v_z a + v_z b\<rparr>"

definition vec_neg :: "vector3 \<Rightarrow> vector3" where
  "vec_neg a = \<lparr>v_x = - v_x a, v_y = - v_y a, v_z = - v_z a\<rparr>"

definition length2 :: "quaternion \<Rightarrow> real" where
  "length2 q = q_x q * q_x q + q_y q * q_y q + q_z q * q_z q + q_w q * q_w q"

subsection \<open>Eigen\<close>

text \<open>\<^verbatim>\<open>Eigen::Quaternion::toRotationMatrix\<close> (also \<^verbatim>\<open>matrix()\<close>): no normalisation.\<close>

definition toRotationMatrix :: "quaternion \<Rightarrow> matrix3" where
  "toRotationMatrix q =
     (let tx = 2 * q_x q; ty = 2 * q_y q; tz = 2 * q_z q;
          twx = tx * q_w q; twy = ty * q_w q; twz = tz * q_w q;
          txx = tx * q_x q; txy = ty * q_x q; txz = tz * q_x q;
          tyy = ty * q_y q; tyz = tz * q_y q; tzz = tz * q_z q
      in \<lparr>m00 = 1 - (tyy + tzz), m01 = txy - twz, m02 = txz + twy,
          m10 = txy + twz, m11 = 1 - (txx + tzz), m12 = tyz - twx,
          m20 = txz - twy, m21 = tyz + twx, m22 = 1 - (txx + tyy)\<rparr>)"

text \<open>The quaternion of \<^verbatim>\<open>Eigen::AngleAxisd(angle, axis)\<close> for the three unit axes.\<close>

definition AngleAxis_UnitX :: "real \<Rightarrow> quaternion" where
  "AngleAxis_UnitX a = \<lparr>q_x = sin (a / 2), q_y = 0, q_z = 0, q_w = cos (a / 2)\<rparr>"

definition AngleAxis_UnitY :: "real \<Rightarrow> quaternion" where
  "AngleAxis_UnitY a = \<lparr>q_x = 0, q_y = sin (a / 2), q_z = 0, q_w = cos (a / 2)\<rparr>"

definition AngleAxis_UnitZ :: "real \<Rightarrow> quaternion" where
  "AngleAxis_UnitZ a = \<lparr>q_x = 0, q_y = 0, q_z = sin (a / 2), q_w = cos (a / 2)\<rparr>"

text \<open>The product of two Eigen quaternions (the Hamilton product).\<close>

definition quat_mul :: "quaternion \<Rightarrow> quaternion \<Rightarrow> quaternion" where
  "quat_mul a b =
     \<lparr>q_x = q_w a * q_x b + q_x a * q_w b + q_y a * q_z b - q_z a * q_y b,
      q_y = q_w a * q_y b + q_y a * q_w b + q_z a * q_x b - q_x a * q_z b,
      q_z = q_w a * q_z b + q_z a * q_w b + q_x a * q_y b - q_y a * q_x b,
      q_w = q_w a * q_w b - q_x a * q_x b - q_y a * q_y b - q_z a * q_z b\<rparr>"

text \<open>
  The conversion of a 3x3 matrix to a quaternion, as \<^verbatim>\<open>Eigen::Quaterniond(rot_mat)\<close> and
  \<^verbatim>\<open>tf2::Matrix3x3::getRotation\<close> both compute it (Shoemake's method: the branch on the
  trace, then on the largest diagonal entry).
\<close>

definition quaternion_of_matrix :: "matrix3 \<Rightarrow> quaternion" where
  "quaternion_of_matrix m =
     (let t = m00 m + m11 m + m22 m in
      if t > 0 then
        (let r = sqrt (t + 1); s = 0.5 / r
         in \<lparr>q_x = (m21 m - m12 m) * s, q_y = (m02 m - m20 m) * s,
             q_z = (m10 m - m01 m) * s, q_w = 0.5 * r\<rparr>)
      else if m00 m < m11 m then
        (if m11 m < m22 m then
           (let r = sqrt (m22 m - m00 m - m11 m + 1); s = 0.5 / r
            in \<lparr>q_x = (m02 m + m20 m) * s, q_y = (m12 m + m21 m) * s,
                q_z = 0.5 * r, q_w = (m10 m - m01 m) * s\<rparr>)
         else
           (let r = sqrt (m11 m - m22 m - m00 m + 1); s = 0.5 / r
            in \<lparr>q_x = (m01 m + m10 m) * s, q_y = 0.5 * r,
                q_z = (m21 m + m12 m) * s, q_w = (m02 m - m20 m) * s\<rparr>))
      else
        (if m00 m < m22 m then
           (let r = sqrt (m22 m - m00 m - m11 m + 1); s = 0.5 / r
            in \<lparr>q_x = (m02 m + m20 m) * s, q_y = (m12 m + m21 m) * s,
                q_z = 0.5 * r, q_w = (m10 m - m01 m) * s\<rparr>)
         else
           (let r = sqrt (m00 m - m11 m - m22 m + 1); s = 0.5 / r
            in \<lparr>q_x = 0.5 * r, q_y = (m10 m + m01 m) * s,
                q_z = (m20 m + m02 m) * s, q_w = (m21 m - m12 m) * s\<rparr>)))"

text \<open>
  \<^verbatim>\<open>Eigen::Translation3d(t) * Eigen::Quaterniond(q)\<close> as a 4x4 matrix: what
  \<^verbatim>\<open>tf2::transformToEigen\<close> and \<^verbatim>\<open>tf2::fromMsg(pose, affine)\<close> build.
\<close>

definition isometry_matrix :: "vector3 \<Rightarrow> quaternion \<Rightarrow> matrix4" where
  "isometry_matrix t q = \<lparr>block33 = toRotationMatrix q, col3 = t, row3 = (0, 0, 0, 1)\<rparr>"

text \<open>\<^verbatim>\<open>pcl::transformPointCloud\<close>: every point is mapped by the first three rows.\<close>

definition transformPoint :: "matrix4 \<Rightarrow> point_xyzi \<Rightarrow> point_xyzi" where
  "transformPoint m p =
     (let v = vec_add (mat_vec (block33 m) \<lparr>v_x = p_x p, v_y = p_y p, v_z = p_z p\<rparr>) (col3 m)
      in p\<lparr>p_x := v_x v, p_y := v_y v, p_z := v_z v\<rparr>)"

definition transformPointCloud :: "point_xyzi list \<Rightarrow> matrix4 \<Rightarrow> point_xyzi list" where
  "transformPointCloud cloud m = map (transformPoint m) cloud"

subsection \<open>tf2\<close>

record tf2_transform =
  m_basis :: matrix3
  m_origin :: vector3

text \<open>
  \<^verbatim>\<open>tf2::Matrix3x3::setRotation\<close>: the rotation matrix of a quaternion, scaled by
  \<^verbatim>\<open>2 / length2\<close>. For the zero quaternion the C++ divides by zero; here \<open>2 / 0 = 0\<close>, so
  results about this function are stated for quaternions of non-zero length.
\<close>

definition setRotation :: "quaternion \<Rightarrow> matrix3" where
  "setRotation q =
     (let d = length2 q; s = 2 / d;
          xs = q_x q * s; ys = q_y q * s; zs = q_z q * s;
          wx = q_w q * xs; wy = q_w q * ys; wz = q_w q * zs;
          xx = q_x q * xs; xy = q_x q * ys; xz = q_x q * zs;
          yy = q_y q * ys; yz = q_y q * zs; zz = q_z q * zs
      in \<lparr>m00 = 1 - (yy + zz), m01 = xy - wz, m02 = xz + wy,
          m10 = xy + wz, m11 = 1 - (xx + zz), m12 = yz - wx,
          m20 = xz - wy, m21 = yz + wx, m22 = 1 - (xx + yy)\<rparr>)"

text \<open>\<^verbatim>\<open>tf2::fromMsg\<close> and \<^verbatim>\<open>tf2::toMsg\<close> between a transform message and a \<^verbatim>\<open>tf2::Transform\<close>.\<close>

definition tf2_fromMsg :: "transform \<Rightarrow> tf2_transform" where
  "tf2_fromMsg t = \<lparr>m_basis = setRotation (rotation t), m_origin = translation t\<rparr>"

definition tf2_toMsg :: "tf2_transform \<Rightarrow> transform" where
  "tf2_toMsg t = \<lparr>translation = m_origin t, rotation = quaternion_of_matrix (m_basis t)\<rparr>"

text \<open>\<^verbatim>\<open>tf2::Transform::operator*\<close> and \<^verbatim>\<open>tf2::Transform::inverse\<close> (the transposed basis).\<close>

definition tf2_mul :: "tf2_transform \<Rightarrow> tf2_transform \<Rightarrow> tf2_transform" where
  "tf2_mul a b =
     \<lparr>m_basis = mat_mul (m_basis a) (m_basis b),
      m_origin = vec_add (mat_vec (m_basis a) (m_origin b)) (m_origin a)\<rparr>"

definition tf2_inverse :: "tf2_transform \<Rightarrow> tf2_transform" where
  "tf2_inverse a =
     (let inv = transpose3 (m_basis a)
      in \<lparr>m_basis = inv, m_origin = mat_vec inv (vec_neg (m_origin a))\<rparr>)"

text \<open>
  \<^verbatim>\<open>tf2::Matrix3x3::getRPY\<close>: roll, pitch and yaw of a matrix read as
  \<open>Rz(yaw) * Ry(pitch) * Rx(roll)\<close>, with the two gimbal-lock branches. \<open>atan2\<close> is the
  two-argument arctangent of the C library.
\<close>

definition atan2 :: "real \<Rightarrow> real \<Rightarrow> real" where
  "atan2 b a =
     (if 0 < a then arctan (b / a)
      else if a < 0 then (if 0 \<le> b then arctan (b / a) + pi else arctan (b / a) - pi)
      else if 0 < b then pi / 2
      else if b < 0 then - pi / 2
      else 0)"

definition getRPY :: "matrix3 \<Rightarrow> real \<times> real \<times> real" where
  "getRPY m =
     (if \<bar>m20 m\<bar> \<ge> 1 then
        (let delta = atan2 (m21 m) (m22 m)
         in if m20 m < 0 then (delta, pi / 2, 0) else (delta, - pi / 2, 0))
      else
        (let pitch = - arcsin (m20 m);
             roll = atan2 (m21 m / cos pitch) (m22 m / cos pitch);
             yaw = atan2 (m10 m / cos pitch) (m00 m / cos pitch)
         in (roll, pitch, yaw)))"

section \<open>The node\<close>

text \<open>
  The collaborators the handlers call and this repository does not implement: the tf
  buffer (\<open>None\<close> is a \<^verbatim>\<open>tf2::TransformException\<close>), the voxel grid filter, the scan
  deskewer and the registration engine with its installed target cloud.
\<close>

record registration_result =
  hasConverged :: bool
  getFitnessScore :: real
  getFinalTransformation :: matrix4

record collaborators =
  lookupTransform :: "string \<Rightarrow> string \<Rightarrow> time_msg \<Rightarrow> transform_stamped option"
  voxel_grid_filter :: "point_xyzi list \<Rightarrow> point_xyzi list"
  adjustDistortion :: "point_xyzi list \<Rightarrow> real \<Rightarrow> point_xyzi list"
  align :: "point_xyzi list \<Rightarrow> matrix4 \<Rightarrow> registration_result"

text \<open>
  What a handler hands to a publisher or to the transform broadcaster, in call order, and
  the warnings and errors it logs. Informational trace lines and the debug prints to
  standard output are not modelled.
\<close>

datatype publication =
  PosePublished pose_with_covariance_stamped
  | PathPublished path_msg
  | TransformSent transform_stamped

datatype warning =
  InitialPoseFrameMismatch
  | OdomIntervalTooLarge
  | OdomIntervalNegative
  | CouldNotTransformCloud
  | RegistrationDidNotConverge
  | FitnessScoreOver real
  | CouldNotGetOdomTransform

text \<open>
  The members of \<^verbatim>\<open>PCLLocalization\<close> the handlers use. A shared pointer is an option:
  \<open>None\<close> is the null pointer. A handler that dereferences a null pointer yields
  \<open>Inl NullPointerDereference\<close>.
\<close>

datatype error = NullPointerDereference

record node =
  global_frame_id :: string
  odom_frame_id :: string
  base_frame_id :: string
  enable_map_odom_tf :: bool
  score_threshold :: real
  scan_min_range :: real
  scan_max_range :: real
  use_odom :: bool
  use_imu :: bool
  map_recieved :: bool
  initialpose_recieved :: bool
  corrent_pose_with_cov_stamped_ptr :: "pose_with_covariance_stamped option"
  path_ptr :: path_msg
  last_scan_ptr :: "point_cloud2 option"
  last_odom_received_time :: real
  published :: "publication list"
  warnings :: "warning list"

definition stamp_seconds :: "time_msg \<Rightarrow> real" where
  "stamp_seconds t = real_of_int (stamp_sec t) + real (stamp_nanosec t) * (1 / 10 ^ 9)"

subsection \<open>odomReceived\<close>

definition dt_odom :: "node \<Rightarrow> odometry \<Rightarrow> real" where
  "dt_odom s msg = stamp_seconds (stamp (odom_header msg)) - last_odom_received_time s"

text \<open>Lines 371 to 397: the prediction applied to the pose the estimate points to.\<close>

definition predict :: "pose \<Rightarrow> twist \<Rightarrow> real \<Rightarrow> pose" where
  "predict p tw dt =
     (case getRPY (setRotation (orientation p)) of
        (roll, pitch, yaw) \<Rightarrow>
          (let roll' = roll + v_x (twist_angular tw) * dt;
               pitch' = pitch + v_y (twist_angular tw) * dt;
               yaw' = yaw + v_z (twist_angular tw) * dt;
               quat_eig = quat_mul (quat_mul (AngleAxis_UnitX roll') (AngleAxis_UnitY pitch'))
                            (AngleAxis_UnitZ yaw');
               delta_position = mat_vec (mat_scale (toRotationMatrix quat_eig) dt) (twist_linear tw)
           in \<lparr>position = vec_add (position p) delta_position, orientation = quat_eig\<rparr>))"

definition odomReceived :: "node \<Rightarrow> odometry \<Rightarrow> error + node" where
  "odomReceived s msg =
     (if \<not> use_odom s then Inr s
      else
        (let current_odom_received_time = stamp_seconds (stamp (odom_header msg));
             dt = current_odom_received_time - last_odom_received_time s;
             s1 = s\<lparr>last_odom_received_time := current_odom_received_time\<rparr>
         in if dt > 1.0 then Inr (s1\<lparr>warnings := warnings s1 @ [OdomIntervalTooLarge]\<rparr>)
            else if dt < 0.0 then Inr (s1\<lparr>warnings := warnings s1 @ [OdomIntervalNegative]\<rparr>)
            else
              (case corrent_pose_with_cov_stamped_ptr s1 of
                 None \<Rightarrow> Inl NullPointerDereference
               | Some cur \<Rightarrow>
                   Inr (s1\<lparr>corrent_pose_with_cov_stamped_ptr :=
                     Some (cur\<lparr>pcs_pose :=
                       (pcs_pose cur)\<lparr>pwc_pose :=
                          predict (pwc_pose (pcs_pose cur)) (odom_twist msg) dt\<rparr>\<rparr>)\<rparr>))))"

subsection \<open>cloudReceived\<close>

text \<open>Lines 453 to 474: the scan in the base frame, \<open>None\<close> when the lookup throws.\<close>

definition scan_in_base_frame ::
  "collaborators \<Rightarrow> node \<Rightarrow> point_cloud2 \<Rightarrow> point_xyzi list option" where
  "scan_in_base_frame env s msg =
     (if frame_id (pc_header msg) \<noteq> base_frame_id s then
        (case lookupTransform env (base_frame_id s) (frame_id (pc_header msg))
                (stamp (pc_header msg)) of
           None \<Rightarrow> None
         | Some base_to_lidar_stamped \<Rightarrow>
             Some (transformPointCloud (pc_points msg)
               (isometry_matrix (translation (ts_transform base_to_lidar_stamped))
                  (rotation (ts_transform base_to_lidar_stamped)))))
      else Some (pc_points msg))"

text \<open>Lines 486 to 493: the points with \<open>scan_min_range < r < scan_max_range\<close>.\<close>

definition range_filter :: "real \<Rightarrow> real \<Rightarrow> point_xyzi list \<Rightarrow> point_xyzi list" where
  "range_filter rmin rmax cloud =
     filter (\<lambda>p. rmin < sqrt ((p_x p)\<^sup>2 + (p_y p)\<^sup>2) \<and> sqrt ((p_x p)\<^sup>2 + (p_y p)\<^sup>2) < rmax) cloud"

text \<open>Lines 476 to 495: the cloud given to \<^verbatim>\<open>setInputSource\<close>.\<close>

definition input_source ::
  "collaborators \<Rightarrow> node \<Rightarrow> point_cloud2 \<Rightarrow> point_xyzi list \<Rightarrow> point_xyzi list" where
  "input_source env s msg cloud =
     (let cloud1 = (if use_imu s
                    then adjustDistortion env cloud (stamp_seconds (stamp (pc_header msg)))
                    else cloud);
          filtered_cloud = voxel_grid_filter env cloud1
      in range_filter (scan_min_range s) (scan_max_range s) filtered_cloud)"

text \<open>Lines 497 to 500: the initial guess built from the current estimate.\<close>

definition init_guess :: "pose_with_covariance_stamped \<Rightarrow> matrix4" where
  "init_guess cur =
     isometry_matrix (position (pwc_pose (pcs_pose cur))) (orientation (pwc_pose (pcs_pose cur)))"

text \<open>Lines 518 to 528: the estimate overwritten from the final transformation.\<close>

definition pose_of_result :: "matrix4 \<Rightarrow> pose" where
  "pose_of_result final_transformation =
     \<lparr>position = col3 final_transformation,
      orientation = quaternion_of_matrix (block33 final_transformation)\<rparr>"

definition updated_estimate ::
  "node \<Rightarrow> point_cloud2 \<Rightarrow> matrix4 \<Rightarrow> pose_with_covariance_stamped
     \<Rightarrow> pose_with_covariance_stamped" where
  "updated_estimate s msg final_transformation cur =
     cur\<lparr>pcs_header := \<lparr>stamp = stamp (pc_header msg), frame_id = global_frame_id s\<rparr>,
         pcs_pose := (pcs_pose cur)\<lparr>pwc_pose := pose_of_result final_transformation\<rparr>\<rparr>"

text \<open>Lines 531 to 538.\<close>

definition map_to_base_link_stamped :: "node \<Rightarrow> point_cloud2 \<Rightarrow> matrix4 \<Rightarrow> transform_stamped" where
  "map_to_base_link_stamped s msg final_transformation =
     \<lparr>ts_header = \<lparr>stamp = stamp (pc_header msg), frame_id = global_frame_id s\<rparr>,
      child_frame_id = base_frame_id s,
      ts_transform = \<lparr>translation = col3 final_transformation,
                      rotation = quaternion_of_matrix (block33 final_transformation)\<rparr>\<rparr>"

text \<open>Lines 555 to 563.\<close>

definition map_to_odom_stamped ::
  "node \<Rightarrow> point_cloud2 \<Rightarrow> transform_stamped \<Rightarrow> transform_stamped \<Rightarrow> transform_stamped" where
  "map_to_odom_stamped s msg map_to_base odom_to_base_link_msg =
     (let map_to_base_link_tf = tf2_fromMsg (ts_transform map_to_base);
          odom_to_base_link_tf = tf2_fromMsg (ts_transform odom_to_base_link_msg);
          map_to_odom_tf = tf2_mul map_to_base_link_tf (tf2_inverse odom_to_base_link_tf)
      in \<lparr>ts_header = \<lparr>stamp = stamp (pc_header msg), frame_id = global_frame_id s\<rparr>,
          child_frame_id = odom_frame_id s,
          ts_transform = tf2_toMsg map_to_odom_tf\<rparr>)"

text \<open>Lines 567 to 574: the trajectory grows, is published, and the scan is remembered.\<close>

definition record_pose :: "node \<Rightarrow> point_cloud2 \<Rightarrow> pose_with_covariance_stamped \<Rightarrow> node" where
  "record_pose s msg cur =
     (let pose_stamped =
            \<lparr>ps_header = \<lparr>stamp = stamp (pc_header msg), frame_id = global_frame_id s\<rparr>,
             ps_pose = pwc_pose (pcs_pose cur)\<rparr>;
          path' = (path_ptr s)\<lparr>poses := poses (path_ptr s) @ [pose_stamped]\<rparr>
      in s\<lparr>path_ptr := path',
           published := published s @ [PathPublished path'],
           last_scan_ptr := Some msg\<rparr>)"

text \<open>Lines 518 to 574: what the cycle does with a converged result.\<close>

definition accept_result ::
  "collaborators \<Rightarrow> node \<Rightarrow> point_cloud2 \<Rightarrow> matrix4 \<Rightarrow> pose_with_covariance_stamped
     \<Rightarrow> node" where
  "accept_result env s msg final_transformation cur =
     (let cur' = updated_estimate s msg final_transformation cur;
          s1 = s\<lparr>corrent_pose_with_cov_stamped_ptr := Some cur',
                 published := published s @ [PosePublished cur']\<rparr>;
          map_to_base = map_to_base_link_stamped s msg final_transformation
      in if \<not> enable_map_odom_tf s1 then
           record_pose (s1\<lparr>published := published s1 @ [TransformSent map_to_base]\<rparr>) msg cur'
         else
           (case lookupTransform env (odom_frame_id s1) (base_frame_id s1)
                   (stamp (pc_header msg)) of
              None \<Rightarrow> s1\<lparr>warnings := warnings s1 @ [CouldNotGetOdomTransform]\<rparr>
            | Some odom_to_base_link_msg \<Rightarrow>
                record_pose
                  (s1\<lparr>published := published s1 @
                     [TransformSent (map_to_odom_stamped s1 msg map_to_base
                        odom_to_base_link_msg)]\<rparr>) msg cur'))"

definition cloudReceived :: "collaborators \<Rightarrow> node \<Rightarrow> point_cloud2 option \<Rightarrow> error + node" where
  "cloudReceived env s msg_ptr =
     (if \<not> map_recieved s \<or> \<not> initialpose_recieved s then Inr s
      else
        (case msg_ptr of
           None \<Rightarrow> Inl NullPointerDereference
         | Some msg \<Rightarrow>
             (case scan_in_base_frame env s msg of
                None \<Rightarrow> Inr (s\<lparr>warnings := warnings s @ [CouldNotTransformCloud]\<rparr>)
              | Some cloud \<Rightarrow>
                  (case corrent_pose_with_cov_stamped_ptr s of
                     None \<Rightarrow> Inl NullPointerDereference
                   | Some cur \<Rightarrow>
                       (let res = align env (input_source env s msg cloud) (init_guess cur)
                        in if \<not> hasConverged res
                           then Inr (s\<lparr>warnings := warnings s @ [RegistrationDidNotConverge]\<rparr>)
                           else
                             (let s1 = (if getFitnessScore res > score_threshold s
                                        then s\<lparr>warnings := warnings s @
                                               [FitnessScoreOver (score_threshold s)]\<rparr>
                                        else s)
                              in Inr (accept_result env s1 msg
                                        (getFinalTransformation res) cur)))))))"

subsection \<open>initialPoseReceived\<close>

definition initialPoseReceived ::
  "collaborators \<Rightarrow> node \<Rightarrow> pose_with_covariance_stamped \<Rightarrow> error + node" where
  "initialPoseReceived env s msg =
     (if frame_id (pcs_header msg) \<noteq> global_frame_id s
      then Inr (s\<lparr>warnings := warnings s @ [InitialPoseFrameMismatch]\<rparr>)
      else
        cloudReceived env
          (s\<lparr>initialpose_recieved := True,
             corrent_pose_with_cov_stamped_ptr := Some msg,
             published := published s @ [PosePublished msg]\<rparr>)
          (last_scan_ptr s))"

subsection \<open>on_activate\<close>

text \<open>
  Lines 64 to 84 of \<^verbatim>\<open>on_activate\<close>: when an initial pose is configured, a message is
  built from the parameters with the stamp \<^verbatim>\<open>now()\<close> and the global frame, its pose is
  appended to the trajectory, and \<^verbatim>\<open>initialPoseReceived\<close> is called on it. The parameters
  are the members read here only; the activation of the publishers and the loading of a map
  file, the rest of \<^verbatim>\<open>on_activate\<close>, are not modelled.
\<close>

record initial_pose_parameters =
  set_initial_pose :: bool
  initial_pose_x :: real
  initial_pose_y :: real
  initial_pose_z :: real
  initial_pose_qx :: real
  initial_pose_qy :: real
  initial_pose_qz :: real
  initial_pose_qw :: real

definition on_activate_initial_pose ::
  "collaborators \<Rightarrow> initial_pose_parameters \<Rightarrow> time_msg \<Rightarrow> node \<Rightarrow> error + node" where
  "on_activate_initial_pose env par now s =
     (if set_initial_pose par then
        (let msg = \<lparr>pcs_header = \<lparr>stamp = now, frame_id = global_frame_id s\<rparr>,
                    pcs_pose =
                      \<lparr>pwc_pose =
                         \<lparr>position = \<lparr>v_x = initial_pose_x par, v_y = initial_pose_y par,
                                       v_z = initial_pose_z par\<rparr>,
                          orientation = \<lparr>q_x = initial_pose_qx par, q_y = initial_pose_qy par,
                                          q_z = initial_pose_qz par, q_w = initial_pose_qw par\<rparr>\<rparr>,
                       covariance = replicate 36 0\<rparr>\<rparr>;
             pose_stamped = \<lparr>ps_header = \<lparr>stamp = stamp (pcs_header msg),
                                           frame_id = global_frame_id s\<rparr>,
                             ps_pose = pwc_pose (pcs_pose msg)\<rparr>
         in initialPoseReceived env
              (s\<lparr>path_ptr := (path_ptr s)\<lparr>poses := poses (path_ptr s) @ [pose_stamped]\<rparr>\<rparr>) msg)
      else Inr s)"

section \<open>The end-to-end scenario\<close>

text \<open>
  The values of the end-to-end scenario of the specification: global frame \<open>map\<close>, the
  initial pose at the origin, and an oracle stub that returns the translation \<open>(1, 0, 0)\<close>
  with the identity rotation. The stub takes the convergence flag, the fitness score and
  the answer of the tf buffer.
\<close>

definition identity_quaternion :: quaternion where
  "identity_quaternion = \<lparr>q_x = 0, q_y = 0, q_z = 0, q_w = 1\<rparr>"

definition identity3 :: matrix3 where
  "identity3 = \<lparr>m00 = 1, m01 = 0, m02 = 0, m10 = 0, m11 = 1, m12 = 0, m20 = 0, m21 = 0, m22 = 1\<rparr>"

definition scenario_initial_pose :: pose_with_covariance_stamped where
  "scenario_initial_pose =
     \<lparr>pcs_header = \<lparr>stamp = \<lparr>stamp_sec = 0, stamp_nanosec = 0\<rparr>, frame_id = ''map''\<rparr>,
      pcs_pose = \<lparr>pwc_pose = \<lparr>position = \<lparr>v_x = 0, v_y = 0, v_z = 0\<rparr>,
                              orientation = identity_quaternion\<rparr>,
                  covariance = []\<rparr>\<rparr>"

definition scenario_scan :: point_cloud2 where
  "scenario_scan =
     \<lparr>pc_header = \<lparr>stamp = \<lparr>stamp_sec = 1, stamp_nanosec = 0\<rparr>, frame_id = ''base_link''\<rparr>,
      pc_points = [\<lparr>p_x = 3, p_y = 4, p_z = 0, intensity = 1\<rparr>]\<rparr>"

definition stub_result :: "bool \<Rightarrow> real \<Rightarrow> registration_result" where
  "stub_result conv fit =
     \<lparr>hasConverged = conv, getFitnessScore = fit,
      getFinalTransformation =
        \<lparr>block33 = identity3, col3 = \<lparr>v_x = 1, v_y = 0, v_z = 0\<rparr>, row3 = (0, 0, 0, 1)\<rparr>\<rparr>"

definition stub_collaborators ::
  "bool \<Rightarrow> real \<Rightarrow> transform_stamped option \<Rightarrow> collaborators" where
  "stub_collaborators conv fit odom_tf =
     \<lparr>lookupTransform = (\<lambda>target source t. odom_tf),
      voxel_grid_filter = (\<lambda>cloud. cloud),
      adjustDistortion = (\<lambda>cloud t. cloud),
      align = (\<lambda>source guess. stub_result conv fit)\<rparr>"

definition scenario_node :: node where
  "scenario_node =
     \<lparr>global_frame_id = ''map'', odom_frame_id = ''odom'', base_frame_id = ''base_link'',
      enable_map_odom_tf = False, score_threshold = 2, scan_min_range = 1,
      scan_max_range = 100, use_odom = True, use_imu = False,
      map_recieved = True, initialpose_recieved = True,
      corrent_pose_with_cov_stamped_ptr = Some scenario_initial_pose,
      path_ptr = \<lparr>path_header = \<lparr>stamp = \<lparr>stamp_sec = 0, stamp_nanosec = 0\<rparr>,
                                  frame_id = ''map''\<rparr>, poses = []\<rparr>,
      last_scan_ptr = None, last_odom_received_time = 0,
      published = [], warnings = []\<rparr>"

definition odom_sample :: "int \<Rightarrow> nat \<Rightarrow> twist \<Rightarrow> odometry" where
  "odom_sample s ns tw =
     \<lparr>odom_header = \<lparr>stamp = \<lparr>stamp_sec = s, stamp_nanosec = ns\<rparr>, frame_id = ''odom''\<rparr>,
      odom_twist = tw\<rparr>"

definition zero_twist :: twist where
  "zero_twist = \<lparr>twist_linear = \<lparr>v_x = 0, v_y = 0, v_z = 0\<rparr>, twist_angular = \<lparr>v_x = 0, v_y = 0, v_z = 0\<rparr>\<rparr>"

text \<open>
  The estimate after the scenario's scan is accepted, and an initial pose supplied later
  on the initial-pose topic.
\<close>

definition relocalised_pose :: pose_with_covariance_stamped where
  "relocalised_pose =
     \<lparr>pcs_header = \<lparr>stamp = \<lparr>stamp_sec = 1, stamp_nanosec = 0\<rparr>, frame_id = ''map''\<rparr>,
      pcs_pose = \<lparr>pwc_pose = \<lparr>position = \<lparr>v_x = 1, v_y = 0, v_z = 0\<rparr>,
                              orientation = identity_quaternion\<rparr>,
                  covariance = []\<rparr>\<rparr>"

definition supplied_pose :: pose_with_covariance_stamped where
  "supplied_pose =
     \<lparr>pcs_header = \<lparr>stamp = \<lparr>stamp_sec = 2, stamp_nanosec = 0\<rparr>, frame_id = ''map''\<rparr>,
      pcs_pose = \<lparr>pwc_pose = \<lparr>position = \<lparr>v_x = 5, v_y = 5, v_z = 0\<rparr>,
                              orientation = identity_quaternion\<rparr>,
                  covariance = []\<rparr>\<rparr>"

text \<open>The answer of the tf buffer for the odom to base lookup in the scenario.\<close>

definition odom_to_base_link :: transform_stamped where
  "odom_to_base_link =
     \<lparr>ts_header = \<lparr>stamp = \<lparr>stamp_sec = 1, stamp_nanosec = 0\<rparr>, frame_id = ''odom''\<rparr>,
      child_frame_id = ''base_link'',
      ts_transform = \<lparr>translation = \<lparr>v_x = 1 / 4, v_y = 0, v_z = 0\<rparr>,
                      rotation = identity_quaternion\<rparr>\<rparr>"

text \<open>
  A voxel grid filter to run the cycle on: one centroid for every occupied cell of a grid of
  the given leaf size, as the voxel grid of the point cloud library computes it (the
  library orders its output by cell index). The probe is a registration stub that converges
  exactly on one expected source cloud.
\<close>

definition voxel_index :: "real \<Rightarrow> point_xyzi \<Rightarrow> int \<times> int \<times> int" where
  "voxel_index leaf p = (\<lfloor>p_x p / leaf\<rfloor>, \<lfloor>p_y p / leaf\<rfloor>, \<lfloor>p_z p / leaf\<rfloor>)"

definition centroid :: "point_xyzi list \<Rightarrow> point_xyzi" where
  "centroid ps =
     \<lparr>p_x = sum_list (map p_x ps) / real (length ps),
      p_y = sum_list (map p_y ps) / real (length ps),
      p_z = sum_list (map p_z ps) / real (length ps),
      intensity = sum_list (map intensity ps) / real (length ps)\<rparr>"

definition centroid_voxel_grid :: "real \<Rightarrow> point_xyzi list \<Rightarrow> point_xyzi list" where
  "centroid_voxel_grid leaf cloud =
     map (\<lambda>cell. centroid (filter (\<lambda>p. voxel_index leaf p = cell) cloud))
       (remdups (map (voxel_index leaf) cloud))"

definition two_point_scan :: point_cloud2 where
  "two_point_scan =
     \<lparr>pc_header = \<lparr>stamp = \<lparr>stamp_sec = 1, stamp_nanosec = 0\<rparr>, frame_id = ''base_link''\<rparr>,
      pc_points = [\<lparr>p_x = 0, p_y = 0, p_z = 0, intensity = 1\<rparr>,
                   \<lparr>p_x = 6, p_y = 8, p_z = 0, intensity = 1\<rparr>]\<rparr>"

definition probe_collaborators :: "point_xyzi list \<Rightarrow> collaborators" where
  "probe_collaborators expected =
     \<lparr>lookupTransform = (\<lambda>target source t. None),
      voxel_grid_filter = centroid_voxel_grid 10,
      adjustDistortion = (\<lambda>cloud t. cloud),
      align = (\<lambda>source guess. stub_result (source = expected) 0.01)\<rparr>"

text \<open>An odometry twist: one metre per second forwards, turning half a turn per second.\<close>

definition turning_twist :: twist where
  "turning_twist =
     \<lparr>twist_linear = \<lparr>v_x = 1, v_y = 0, v_z = 0\<rparr>, twist_angular = \<lparr>v_x = 0, v_y = 0, v_z = pi\<rparr>\<rparr>"

text \<open>The scenario's scan in a sensor frame the tf buffer cannot resolve.\<close>

definition lidar_scan :: point_cloud2 where
  "lidar_scan =
     \<lparr>pc_header = \<lparr>stamp = \<lparr>stamp_sec = 1, stamp_nanosec = 0\<rparr>, frame_id = ''lidar''\<rparr>,
      pc_points = [\<lparr>p_x = 3, p_y = 4, p_z = 0, intensity = 1\<rparr>]\<rparr>"

section \<open>Properties of the handlers\<close>

text \<open>
  A cycle that passes the entry gate, finds the estimate and resolves the scan into the
  base frame reaches the registration engine; the rest of the cycle depends on its answer.
\<close>

lemma cloudReceived_cycle:
  assumes "map_recieved s" and "initialpose_recieved s"
    and "corrent_pose_with_cov_stamped_ptr s = Some cur"
    and "scan_in_base_frame env s msg = Some cloud"
  shows "cloudReceived env s (Some msg) =
           (let res = align env (input_source env s msg cloud) (init_guess cur)
            in if \<not> hasConverged res
               then Inr (s\<lparr>warnings := warnings s @ [RegistrationDidNotConverge]\<rparr>)
               else Inr (accept_result env
                           (if getFitnessScore res > score_threshold s
                            then s\<lparr>warnings := warnings s @ [FitnessScoreOver (score_threshold s)]\<rparr>
                            else s)
                           msg (getFinalTransformation res) cur))"
  using assms by (simp add: cloudReceived_def Let_def)

lemma scenario_scan_in_base_frame:
  "base_frame_id s = ''base_link'' \<Longrightarrow>
   scan_in_base_frame env s scenario_scan = Some (pc_points scenario_scan)"
  by (simp add: scan_in_base_frame_def scenario_scan_def)

lemma scenario_node_gate:
  "map_recieved scenario_node" "initialpose_recieved scenario_node"
  "corrent_pose_with_cov_stamped_ptr scenario_node = Some scenario_initial_pose"
  by (simp_all add: scenario_node_def)

subsection \<open>C2: a cycle that does not converge\<close>

text \<open>
  C2. In a scan cycle in which the registration reports that it has not converged, the
  handler returns before any publication: nothing is published (no pose, no path, no
  transform), and the current estimate, the trajectory and the remembered last scan are
  what they were.
\<close>

theorem not_converged_publishes_nothing:
  assumes "map_recieved s" and "initialpose_recieved s"
    and "corrent_pose_with_cov_stamped_ptr s = Some cur"
    and "scan_in_base_frame env s msg = Some cloud"
    and "\<not> hasConverged (align env (input_source env s msg cloud) (init_guess cur))"
  shows "\<exists>s'. cloudReceived env s (Some msg) = Inr s' \<and>
           published s' = published s \<and>
           corrent_pose_with_cov_stamped_ptr s' = corrent_pose_with_cov_stamped_ptr s \<and>
           path_ptr s' = path_ptr s \<and>
           last_scan_ptr s' = last_scan_ptr s"
  using assms by (simp add: cloudReceived_cycle)

theorem not_converged_publishes_nothing_witness:
  "\<not> hasConverged (align (stub_collaborators False 0.01 None)
        (input_source (stub_collaborators False 0.01 None) scenario_node scenario_scan
           (pc_points scenario_scan)) (init_guess scenario_initial_pose)) \<and>
   (\<exists>s'. cloudReceived (stub_collaborators False 0.01 None) scenario_node
            (Some scenario_scan) = Inr s' \<and>
      published s' = [] \<and>
      corrent_pose_with_cov_stamped_ptr s' = Some scenario_initial_pose \<and>
      poses (path_ptr s') = [] \<and> last_scan_ptr s' = None)"
proof -
  have b: "scan_in_base_frame (stub_collaborators False 0.01 None) scenario_node scenario_scan =
      Some (pc_points scenario_scan)"
    by (simp add: scenario_scan_in_base_frame scenario_node_def)
  have n: "\<not> hasConverged (align (stub_collaborators False 0.01 None)
        (input_source (stub_collaborators False 0.01 None) scenario_node scenario_scan
           (pc_points scenario_scan)) (init_guess scenario_initial_pose))"
    by (simp add: stub_collaborators_def stub_result_def)
  show ?thesis using n not_converged_publishes_nothing [OF scenario_node_gate b n]
    by (auto simp add: scenario_node_def)
qed

subsection \<open>C6: an initial pose in another frame\<close>

text \<open>
  C6. An initial-pose message whose frame is not the configured global frame is rejected:
  the node is what it was (estimate, trajectory, gate flags, publications), but for one
  more warning.
\<close>

theorem initial_pose_frame_mismatch_rejected:
  assumes "frame_id (pcs_header msg) \<noteq> global_frame_id s"
  shows "initialPoseReceived env s msg =
           Inr (s\<lparr>warnings := warnings s @ [InitialPoseFrameMismatch]\<rparr>)"
  using assms by (simp add: initialPoseReceived_def)

theorem initial_pose_frame_mismatch_rejected_witness:
  "frame_id (pcs_header (scenario_initial_pose\<lparr>pcs_header :=
       (pcs_header scenario_initial_pose)\<lparr>frame_id := ''odom''\<rparr>\<rparr>)) \<noteq>
     global_frame_id scenario_node \<and>
   initialPoseReceived (stub_collaborators True 0.01 None) scenario_node
       (scenario_initial_pose\<lparr>pcs_header :=
          (pcs_header scenario_initial_pose)\<lparr>frame_id := ''odom''\<rparr>\<rparr>) =
     Inr (scenario_node\<lparr>warnings := [InitialPoseFrameMismatch]\<rparr>)"
proof -
  have h: "frame_id (pcs_header (scenario_initial_pose\<lparr>pcs_header :=
       (pcs_header scenario_initial_pose)\<lparr>frame_id := ''odom''\<rparr>\<rparr>)) \<noteq>
     global_frame_id scenario_node"
    by (simp add: scenario_node_def)
  show ?thesis
    using h initial_pose_frame_mismatch_rejected [OF h, of "stub_collaborators True 0.01 None"]
    by (simp add: scenario_node_def)
qed

subsection \<open>C7: an odometry sample after a bad interval\<close>

text \<open>
  C7. When the time since the previously received odometry sample is negative or more than
  one second, the prediction is skipped: the handler returns and the current estimate is
  exactly what it was.
\<close>

theorem odom_bad_interval_keeps_estimate:
  assumes "dt_odom s msg < 0 \<or> 1 < dt_odom s msg"
  shows "\<exists>s'. odomReceived s msg = Inr s' \<and>
           corrent_pose_with_cov_stamped_ptr s' = corrent_pose_with_cov_stamped_ptr s"
  using assms by (auto simp add: odomReceived_def dt_odom_def Let_def)

theorem odom_bad_interval_keeps_estimate_witness:
  "1 < dt_odom scenario_node (odom_sample 5 0 zero_twist) \<and>
   dt_odom (scenario_node\<lparr>last_odom_received_time := 10\<rparr>)
      (odom_sample 9 500000000 zero_twist) < 0 \<and>
   (\<exists>s'. odomReceived scenario_node (odom_sample 5 0 zero_twist) = Inr s' \<and>
      corrent_pose_with_cov_stamped_ptr s' = Some scenario_initial_pose) \<and>
   (\<exists>s'. odomReceived (scenario_node\<lparr>last_odom_received_time := 10\<rparr>)
        (odom_sample 9 500000000 zero_twist) = Inr s' \<and>
      corrent_pose_with_cov_stamped_ptr s' = Some scenario_initial_pose)"
proof -
  have a: "1 < dt_odom scenario_node (odom_sample 5 0 zero_twist)"
    by (simp add: dt_odom_def odom_sample_def scenario_node_def stamp_seconds_def)
  have b: "dt_odom (scenario_node\<lparr>last_odom_received_time := 10\<rparr>)
      (odom_sample 9 500000000 zero_twist) < 0"
    by (simp add: dt_odom_def odom_sample_def scenario_node_def stamp_seconds_def)
  from a have a': "dt_odom scenario_node (odom_sample 5 0 zero_twist) < 0 \<or>
      1 < dt_odom scenario_node (odom_sample 5 0 zero_twist)" by simp
  from b have b': "dt_odom (scenario_node\<lparr>last_odom_received_time := 10\<rparr>)
      (odom_sample 9 500000000 zero_twist) < 0 \<or>
      1 < dt_odom (scenario_node\<lparr>last_odom_received_time := 10\<rparr>)
      (odom_sample 9 500000000 zero_twist)" by simp
  show ?thesis
    using a b odom_bad_interval_keeps_estimate [OF a'] odom_bad_interval_keeps_estimate [OF b']
    by (simp add: scenario_node_def)
qed

subsection \<open>Facts about the scenario and about an accepted result\<close>

lemma stub_simps:
  "align (stub_collaborators conv fit tf) src g = stub_result conv fit"
  "lookupTransform (stub_collaborators conv fit tf) a b t = tf"
  "voxel_grid_filter (stub_collaborators conv fit tf) c = c"
  "hasConverged (stub_result conv fit) = conv"
  "getFitnessScore (stub_result conv fit) = fit"
  by (simp_all add: stub_collaborators_def stub_result_def)

lemma scenario_node_fields:
  "global_frame_id scenario_node = ''map''" "odom_frame_id scenario_node = ''odom''"
  "base_frame_id scenario_node = ''base_link''" "\<not> enable_map_odom_tf scenario_node"
  "score_threshold scenario_node = 2" "scan_min_range scenario_node = 1"
  "scan_max_range scenario_node = 100" "use_odom scenario_node" "\<not> use_imu scenario_node"
  "poses (path_ptr scenario_node) = []" "last_scan_ptr scenario_node = None"
  "last_odom_received_time scenario_node = 0" "published scenario_node = []"
  "warnings scenario_node = []"
  by (simp_all add: scenario_node_def)

lemma quaternion_of_identity3: "quaternion_of_matrix identity3 = identity_quaternion"
  by (simp add: quaternion_of_matrix_def identity3_def identity_quaternion_def Let_def)

lemma scenario_updated_estimate:
  "global_frame_id s = ''map'' \<Longrightarrow>
   updated_estimate s scenario_scan (getFinalTransformation (stub_result conv fit))
     scenario_initial_pose = relocalised_pose"
  by (simp add: updated_estimate_def stub_result_def pose_of_result_def quaternion_of_identity3
      scenario_scan_def scenario_initial_pose_def relocalised_pose_def)

lemma supplied_updated_estimate:
  "global_frame_id s = ''map'' \<Longrightarrow>
   updated_estimate s scenario_scan (getFinalTransformation (stub_result conv fit))
     supplied_pose = relocalised_pose"
  by (simp add: updated_estimate_def stub_result_def pose_of_result_def quaternion_of_identity3
      scenario_scan_def supplied_pose_def relocalised_pose_def)

lemma pose_of_stub_result:
  "pose_of_result (getFinalTransformation (stub_result conv fit)) = pwc_pose (pcs_pose relocalised_pose)"
  by (simp add: stub_result_def pose_of_result_def quaternion_of_identity3 relocalised_pose_def)


lemma armed_other:
  "scan_in_base_frame env (s\<lparr>initialpose_recieved := a, corrent_pose_with_cov_stamped_ptr := c,
      published := p\<rparr>) msg = scan_in_base_frame env s msg"
  "input_source env (s\<lparr>initialpose_recieved := a, corrent_pose_with_cov_stamped_ptr := c,
      published := p\<rparr>) msg cloud = input_source env s msg cloud"
  "updated_estimate (s\<lparr>initialpose_recieved := a, corrent_pose_with_cov_stamped_ptr := c,
      published := p\<rparr>) msg T cur = updated_estimate s msg T cur"
  by (simp_all add: scan_in_base_frame_def input_source_def updated_estimate_def Let_def)



lemma accept_result_estimate:
  "corrent_pose_with_cov_stamped_ptr (accept_result env s msg T cur) =
     Some (updated_estimate s msg T cur)"
  by (simp add: accept_result_def record_pose_def Let_def split: option.splits)



lemma accept_result_gate:
  "initialpose_recieved (accept_result env s msg T cur) = initialpose_recieved s"
  by (simp add: accept_result_def record_pose_def Let_def split: option.splits)

lemma accept_result_trajectory:
  "poses (path_ptr (accept_result env s msg T cur)) =
     (if enable_map_odom_tf s \<and>
         lookupTransform env (odom_frame_id s) (base_frame_id s) (stamp (pc_header msg)) = None
      then poses (path_ptr s)
      else poses (path_ptr s) @
        [\<lparr>ps_header = \<lparr>stamp = stamp (pc_header msg), frame_id = global_frame_id s\<rparr>,
          ps_pose = pose_of_result T\<rparr>])"
  by (simp add: accept_result_def record_pose_def updated_estimate_def Let_def
      split: option.splits)

lemma initialPoseReceived_replay:
  assumes "frame_id (pcs_header msg) = global_frame_id s"
    and "map_recieved s" and "last_scan_ptr s = Some scan"
    and "scan_in_base_frame env s scan = Some cloud"
    and "hasConverged (align env (input_source env s scan cloud) (init_guess msg))"
  shows "initialPoseReceived env s msg =
           Inr (accept_result env
             (if getFitnessScore (align env (input_source env s scan cloud) (init_guess msg))
                   > score_threshold s
              then s\<lparr>initialpose_recieved := True,
                     corrent_pose_with_cov_stamped_ptr := Some msg,
                     published := published s @ [PosePublished msg],
                     warnings := warnings s @ [FitnessScoreOver (score_threshold s)]\<rparr>
              else s\<lparr>initialpose_recieved := True,
                     corrent_pose_with_cov_stamped_ptr := Some msg,
                     published := published s @ [PosePublished msg]\<rparr>)
             scan
             (getFinalTransformation (align env (input_source env s scan cloud) (init_guess msg)))
             msg)"
proof -
  let ?armed = "s\<lparr>initialpose_recieved := True, corrent_pose_with_cov_stamped_ptr := Some msg,
      published := published s @ [PosePublished msg]\<rparr>"
  have g: "map_recieved ?armed" "initialpose_recieved ?armed"
    "corrent_pose_with_cov_stamped_ptr ?armed = Some msg"
    using assms(2) by simp_all
  have b: "scan_in_base_frame env ?armed scan = Some cloud"
    using assms(4) by (simp add: armed_other)
  show ?thesis
    using assms(1,3,5)
    by (simp add: initialPoseReceived_def cloudReceived_cycle [OF g b] armed_other Let_def)
qed

subsection \<open>C3: the odom lookup fails after the pose is published\<close>

text \<open>
  C3. With the map-to-odom transform enabled, when the registration converges and the
  lookup of the odom-to-base transform at the scan's stamp throws, the estimate has been
  updated from the result and published on the pose topic, and that pose is the only
  publication of the cycle: no transform is sent.
\<close>

theorem odom_lookup_failure_publishes_pose_only:
  assumes "map_recieved s" and "initialpose_recieved s"
    and "corrent_pose_with_cov_stamped_ptr s = Some cur"
    and "scan_in_base_frame env s msg = Some cloud"
    and "hasConverged (align env (input_source env s msg cloud) (init_guess cur))"
    and "enable_map_odom_tf s"
    and "lookupTransform env (odom_frame_id s) (base_frame_id s) (stamp (pc_header msg)) = None"
  shows "\<exists>s'. cloudReceived env s (Some msg) = Inr s' \<and>
           corrent_pose_with_cov_stamped_ptr s' =
             Some (updated_estimate s msg
               (getFinalTransformation (align env (input_source env s msg cloud) (init_guess cur))) cur) \<and>
           published s' = published s @
             [PosePublished (updated_estimate s msg
               (getFinalTransformation (align env (input_source env s msg cloud) (init_guess cur))) cur)]"
  using assms by (simp add: cloudReceived_cycle accept_result_def Let_def updated_estimate_def)

theorem odom_lookup_failure_publishes_pose_only_witness:
  "enable_map_odom_tf (scenario_node\<lparr>enable_map_odom_tf := True\<rparr>) \<and>
   lookupTransform (stub_collaborators True 0.01 None) ''odom'' ''base_link''
     (stamp (pc_header scenario_scan)) = None \<and>
   (\<exists>s'. cloudReceived (stub_collaborators True 0.01 None)
            (scenario_node\<lparr>enable_map_odom_tf := True\<rparr>) (Some scenario_scan) = Inr s' \<and>
      corrent_pose_with_cov_stamped_ptr s' = Some relocalised_pose \<and>
      published s' = [PosePublished relocalised_pose])"
proof -
  let ?env = "stub_collaborators True 0.01 None"
  let ?s = "scenario_node\<lparr>enable_map_odom_tf := True\<rparr>"
  have g: "map_recieved ?s" "initialpose_recieved ?s"
    "corrent_pose_with_cov_stamped_ptr ?s = Some scenario_initial_pose"
    by (simp_all add: scenario_node_def)
  have b: "scan_in_base_frame ?env ?s scenario_scan = Some (pc_points scenario_scan)"
    by (simp add: scenario_scan_in_base_frame scenario_node_def)
  have c: "hasConverged (align ?env (input_source ?env ?s scenario_scan (pc_points scenario_scan))
      (init_guess scenario_initial_pose))"
    by (simp add: stub_simps)
  have e: "enable_map_odom_tf ?s" by simp
  have l: "lookupTransform ?env (odom_frame_id ?s) (base_frame_id ?s)
      (stamp (pc_header scenario_scan)) = None"
    by (simp add: stub_simps)
  have u: "global_frame_id ?s = ''map''" by (simp add: scenario_node_def)
  have p: "published ?s = []" by (simp add: scenario_node_def)
  show ?thesis
    using odom_lookup_failure_publishes_pose_only [OF g b c e l]
    by (simp add: stub_simps scenario_updated_estimate [OF u] p)
qed

subsection \<open>C4: the fitness score is over the threshold\<close>



subsection \<open>C5: an initial pose in the global frame\<close>

lemma accept_result_published:
  "published (accept_result env s msg F cur) =
     published s @ [PosePublished (updated_estimate s msg F cur)] @
       (if \<not> enable_map_odom_tf s
        then [TransformSent (map_to_base_link_stamped s msg F),
              PathPublished (path_ptr (accept_result env s msg F cur))]
        else (case lookupTransform env (odom_frame_id s) (base_frame_id s)
                     (stamp (pc_header msg)) of
                None \<Rightarrow> []
              | Some ob \<Rightarrow>
                  [TransformSent
                     (map_to_odom_stamped s msg (map_to_base_link_stamped s msg F) ob),
                   PathPublished (path_ptr (accept_result env s msg F cur))]))"
  by (simp add: accept_result_def record_pose_def map_to_odom_stamped_def
      map_to_base_link_stamped_def Let_def split: option.splits)

lemma accept_result_map_recieved:
  "map_recieved (accept_result env s msg F cur) = map_recieved s"
  by (simp add: accept_result_def record_pose_def Let_def split: option.splits)

lemma initialPoseReceived_armed:
  assumes "frame_id (pcs_header msg) = global_frame_id s"
  shows "initialPoseReceived env s msg =
           cloudReceived env
             (s\<lparr>initialpose_recieved := True,
                corrent_pose_with_cov_stamped_ptr := Some msg,
                published := published s @ [PosePublished msg]\<rparr>)
             (last_scan_ptr s)"
  using assms by (simp add: initialPoseReceived_def)

lemma lidar_scan_not_resolved:
  "base_frame_id s = ''base_link'' \<Longrightarrow>
   scan_in_base_frame (stub_collaborators conv fit None) s lidar_scan = None"
  by (simp add: scan_in_base_frame_def lidar_scan_def stub_simps)

text \<open>
  C5. What \<^verbatim>\<open>initialPoseReceived\<close> does with an initial pose in the global frame, in
  every case. The gate is armed, the estimate is overwritten with the supplied pose and
  that pose is published first. Then:
  \<^item> without a map the handler ends there;
  \<^item> with a map and no remembered scan it dereferences the null scan pointer;
  \<^item> with a map and a remembered scan that does not resolve into the base frame, or on
    which the registration does not converge, it logs the warning and ends there;
  \<^item> with a map and a remembered scan on which the registration converges, the
    re-localised pose becomes the estimate and is published right after the supplied
    one, followed by the transform and the path unless the odom lookup fails.

  C5 has the supplied pose appended to the trajectory. In no case does the handler do so:
  the trajectory is what it was, or is extended by the re-localised pose alone.
\<close>

theorem initial_pose_handler_outcomes:
  assumes "frame_id (pcs_header msg) = global_frame_id s"
  shows
    "(\<not> map_recieved s \<longrightarrow>
        initialPoseReceived env s msg =
          Inr (s\<lparr>initialpose_recieved := True,
                 corrent_pose_with_cov_stamped_ptr := Some msg,
                 published := published s @ [PosePublished msg]\<rparr>)) \<and>
     (map_recieved s \<longrightarrow> last_scan_ptr s = None \<longrightarrow>
        initialPoseReceived env s msg = Inl NullPointerDereference) \<and>
     (\<forall>scan.
        map_recieved s \<longrightarrow> last_scan_ptr s = Some scan \<longrightarrow>
        scan_in_base_frame env s scan = None \<longrightarrow>
        initialPoseReceived env s msg =
          Inr (s\<lparr>initialpose_recieved := True,
                 corrent_pose_with_cov_stamped_ptr := Some msg,
                 published := published s @ [PosePublished msg],
                 warnings := warnings s @ [CouldNotTransformCloud]\<rparr>)) \<and>
     (\<forall>scan cloud.
        map_recieved s \<longrightarrow> last_scan_ptr s = Some scan \<longrightarrow>
        scan_in_base_frame env s scan = Some cloud \<longrightarrow>
        \<not> hasConverged (align env (input_source env s scan cloud) (init_guess msg)) \<longrightarrow>
        initialPoseReceived env s msg =
          Inr (s\<lparr>initialpose_recieved := True,
                 corrent_pose_with_cov_stamped_ptr := Some msg,
                 published := published s @ [PosePublished msg],
                 warnings := warnings s @ [RegistrationDidNotConverge]\<rparr>)) \<and>
     (\<forall>scan cloud.
        map_recieved s \<longrightarrow> last_scan_ptr s = Some scan \<longrightarrow>
        scan_in_base_frame env s scan = Some cloud \<longrightarrow>
        hasConverged (align env (input_source env s scan cloud) (init_guess msg)) \<longrightarrow>
        (\<exists>s'. initialPoseReceived env s msg = Inr s' \<and>
           map_recieved s' \<and> initialpose_recieved s' \<and>
           corrent_pose_with_cov_stamped_ptr s' =
             Some (updated_estimate s scan
               (getFinalTransformation
                  (align env (input_source env s scan cloud) (init_guess msg))) msg) \<and>
           published s' =
             published s @
               [PosePublished msg,
                PosePublished (updated_estimate s scan
                  (getFinalTransformation
                     (align env (input_source env s scan cloud) (init_guess msg))) msg)] @
               (if \<not> enable_map_odom_tf s
                then [TransformSent (map_to_base_link_stamped s scan
                        (getFinalTransformation
                           (align env (input_source env s scan cloud) (init_guess msg)))),
                      PathPublished (path_ptr s')]
                else (case lookupTransform env (odom_frame_id s) (base_frame_id s)
                             (stamp (pc_header scan)) of
                        None \<Rightarrow> []
                      | Some ob \<Rightarrow>
                          [TransformSent
                             (map_to_odom_stamped s scan
                                (map_to_base_link_stamped s scan
                                   (getFinalTransformation
                                      (align env (input_source env s scan cloud)
                                         (init_guess msg)))) ob),
                           PathPublished (path_ptr s')])) \<and>
           poses (path_ptr s') =
             (if enable_map_odom_tf s \<and>
                 lookupTransform env (odom_frame_id s) (base_frame_id s)
                   (stamp (pc_header scan)) = None
              then poses (path_ptr s)
              else poses (path_ptr s) @
                [\<lparr>ps_header = \<lparr>stamp = stamp (pc_header scan), frame_id = global_frame_id s\<rparr>,
                  ps_pose = pose_of_result (getFinalTransformation
                     (align env (input_source env s scan cloud) (init_guess msg)))\<rparr>])))"
proof (intro conjI allI impI)
  assume "\<not> map_recieved s"
  then show "initialPoseReceived env s msg =
      Inr (s\<lparr>initialpose_recieved := True, corrent_pose_with_cov_stamped_ptr := Some msg,
             published := published s @ [PosePublished msg]\<rparr>)"
    by (simp add: initialPoseReceived_armed [OF assms] cloudReceived_def)
next
  assume "map_recieved s" and "last_scan_ptr s = None"
  then show "initialPoseReceived env s msg = Inl NullPointerDereference"
    by (simp add: initialPoseReceived_armed [OF assms] cloudReceived_def)
next
  fix scan
  assume "map_recieved s" and "last_scan_ptr s = Some scan"
    and "scan_in_base_frame env s scan = None"
  then show "initialPoseReceived env s msg =
      Inr (s\<lparr>initialpose_recieved := True, corrent_pose_with_cov_stamped_ptr := Some msg,
             published := published s @ [PosePublished msg],
             warnings := warnings s @ [CouldNotTransformCloud]\<rparr>)"
    by (simp add: initialPoseReceived_armed [OF assms] cloudReceived_def armed_other)
next
  fix scan cloud
  assume "map_recieved s" and "last_scan_ptr s = Some scan"
    and "scan_in_base_frame env s scan = Some cloud"
    and "\<not> hasConverged (align env (input_source env s scan cloud) (init_guess msg))"
  then show "initialPoseReceived env s msg =
      Inr (s\<lparr>initialpose_recieved := True, corrent_pose_with_cov_stamped_ptr := Some msg,
             published := published s @ [PosePublished msg],
             warnings := warnings s @ [RegistrationDidNotConverge]\<rparr>)"
    by (simp add: initialPoseReceived_armed [OF assms] cloudReceived_def armed_other Let_def)
next
  fix scan cloud
  let ?armed = "s\<lparr>initialpose_recieved := True, corrent_pose_with_cov_stamped_ptr := Some msg,
      published := published s @ [PosePublished msg]\<rparr>"
  let ?res = "align env (input_source env s scan cloud) (init_guess msg)"
  let ?F = "getFinalTransformation ?res"
  let ?sw = "if getFitnessScore ?res > score_threshold s
             then ?armed\<lparr>warnings := warnings s @ [FitnessScoreOver (score_threshold s)]\<rparr>
             else ?armed"
  let ?r = "accept_result env ?sw scan ?F msg"
  assume m: "map_recieved s" and l: "last_scan_ptr s = Some scan"
    and b: "scan_in_base_frame env s scan = Some cloud" and c: "hasConverged ?res"
  have r: "initialPoseReceived env s msg = Inr ?r"
    using initialPoseReceived_replay [OF assms m l b c] by (simp add: if_distrib)
  have sw: "map_recieved ?sw" "initialpose_recieved ?sw"
    "published ?sw = published s @ [PosePublished msg]"
    "enable_map_odom_tf ?sw = enable_map_odom_tf s" "odom_frame_id ?sw = odom_frame_id s"
    "base_frame_id ?sw = base_frame_id s" "path_ptr ?sw = path_ptr s"
    "global_frame_id ?sw = global_frame_id s"
    "updated_estimate ?sw scan ?F msg = updated_estimate s scan ?F msg"
    "map_to_base_link_stamped ?sw scan ?F = map_to_base_link_stamped s scan ?F"
    "\<And>mb ob. map_to_odom_stamped ?sw scan mb ob = map_to_odom_stamped s scan mb ob"
    using m
    by (simp_all add: updated_estimate_def map_to_base_link_stamped_def map_to_odom_stamped_def)
  have 1: "map_recieved ?r" "initialpose_recieved ?r"
    by (simp_all only: accept_result_map_recieved accept_result_gate sw)
  have 2: "corrent_pose_with_cov_stamped_ptr ?r = Some (updated_estimate s scan ?F msg)"
    by (simp only: accept_result_estimate sw)
  have 3: "published ?r =
      published s @ [PosePublished msg, PosePublished (updated_estimate s scan ?F msg)] @
        (if \<not> enable_map_odom_tf s
         then [TransformSent (map_to_base_link_stamped s scan ?F), PathPublished (path_ptr ?r)]
         else (case lookupTransform env (odom_frame_id s) (base_frame_id s)
                      (stamp (pc_header scan)) of
                 None \<Rightarrow> []
               | Some ob \<Rightarrow>
                   [TransformSent
                      (map_to_odom_stamped s scan (map_to_base_link_stamped s scan ?F) ob),
                    PathPublished (path_ptr ?r)]))"
    by (subst accept_result_published) (simp only: sw append_assoc append_Cons append_Nil)
  have 4: "poses (path_ptr ?r) =
      (if enable_map_odom_tf s \<and>
          lookupTransform env (odom_frame_id s) (base_frame_id s) (stamp (pc_header scan)) = None
       then poses (path_ptr s)
       else poses (path_ptr s) @
         [\<lparr>ps_header = \<lparr>stamp = stamp (pc_header scan), frame_id = global_frame_id s\<rparr>,
           ps_pose = pose_of_result ?F\<rparr>])"
    by (simp only: accept_result_trajectory sw)
  show "\<exists>s'. initialPoseReceived env s msg = Inr s' \<and>
      map_recieved s' \<and> initialpose_recieved s' \<and>
      corrent_pose_with_cov_stamped_ptr s' = Some (updated_estimate s scan ?F msg) \<and>
      published s' =
        published s @ [PosePublished msg, PosePublished (updated_estimate s scan ?F msg)] @
          (if \<not> enable_map_odom_tf s
           then [TransformSent (map_to_base_link_stamped s scan ?F), PathPublished (path_ptr s')]
           else (case lookupTransform env (odom_frame_id s) (base_frame_id s)
                        (stamp (pc_header scan)) of
                   None \<Rightarrow> []
                 | Some ob \<Rightarrow>
                     [TransformSent
                        (map_to_odom_stamped s scan (map_to_base_link_stamped s scan ?F) ob),
                      PathPublished (path_ptr s')])) \<and>
      poses (path_ptr s') =
        (if enable_map_odom_tf s \<and>
            lookupTransform env (odom_frame_id s) (base_frame_id s) (stamp (pc_header scan)) = None
         then poses (path_ptr s)
         else poses (path_ptr s) @
           [\<lparr>ps_header = \<lparr>stamp = stamp (pc_header scan), frame_id = global_frame_id s\<rparr>,
             ps_pose = pose_of_result ?F\<rparr>])"
    using r 1 2 3 4 by blast
qed

theorem initial_pose_handler_outcomes_witness:
  "frame_id (pcs_header supplied_pose) = global_frame_id scenario_node \<and>
   initialPoseReceived (stub_collaborators True 0.01 None) scenario_node supplied_pose =
     Inl NullPointerDereference \<and>
   initialPoseReceived (stub_collaborators True 0.01 None)
       (scenario_node\<lparr>map_recieved := False\<rparr>) supplied_pose =
     Inr (scenario_node\<lparr>map_recieved := False,
            corrent_pose_with_cov_stamped_ptr := Some supplied_pose,
            published := [PosePublished supplied_pose]\<rparr>) \<and>
   initialPoseReceived (stub_collaborators True 0.01 None)
       (scenario_node\<lparr>last_scan_ptr := Some lidar_scan\<rparr>) supplied_pose =
     Inr (scenario_node\<lparr>last_scan_ptr := Some lidar_scan,
            corrent_pose_with_cov_stamped_ptr := Some supplied_pose,
            published := [PosePublished supplied_pose],
            warnings := [CouldNotTransformCloud]\<rparr>) \<and>
   initialPoseReceived (stub_collaborators False 0.01 None)
       (scenario_node\<lparr>last_scan_ptr := Some scenario_scan\<rparr>) supplied_pose =
     Inr (scenario_node\<lparr>last_scan_ptr := Some scenario_scan,
            corrent_pose_with_cov_stamped_ptr := Some supplied_pose,
            published := [PosePublished supplied_pose],
            warnings := [RegistrationDidNotConverge]\<rparr>) \<and>
   (\<exists>s'. initialPoseReceived (stub_collaborators True 0.01 None)
            (scenario_node\<lparr>last_scan_ptr := Some scenario_scan\<rparr>) supplied_pose = Inr s' \<and>
      initialpose_recieved s' \<and>
      corrent_pose_with_cov_stamped_ptr s' = Some relocalised_pose \<and>
      published s' =
        [PosePublished supplied_pose, PosePublished relocalised_pose,
         TransformSent (map_to_base_link_stamped scenario_node scenario_scan
           (getFinalTransformation (stub_result True 0.01))),
         PathPublished (path_ptr s')] \<and>
      map ps_pose (poses (path_ptr s')) = [pwc_pose (pcs_pose relocalised_pose)] \<and>
      pwc_pose (pcs_pose supplied_pose) \<notin> set (map ps_pose (poses (path_ptr s'))))"
proof -
  let ?ok = "stub_collaborators True 0.01 None"
  let ?nc = "stub_collaborators False 0.01 None"
  let ?s1 = "scenario_node\<lparr>map_recieved := False\<rparr>"
  let ?s3 = "scenario_node\<lparr>last_scan_ptr := Some lidar_scan\<rparr>"
  let ?s4 = "scenario_node\<lparr>last_scan_ptr := Some scenario_scan\<rparr>"
  have f: "frame_id (pcs_header supplied_pose) = global_frame_id scenario_node"
    and f1: "frame_id (pcs_header supplied_pose) = global_frame_id ?s1"
    and f3: "frame_id (pcs_header supplied_pose) = global_frame_id ?s3"
    and f4: "frame_id (pcs_header supplied_pose) = global_frame_id ?s4"
    by (simp_all add: supplied_pose_def scenario_node_fields)
  have a: "initialPoseReceived ?ok ?s1 supplied_pose =
     Inr (scenario_node\<lparr>map_recieved := False,
            corrent_pose_with_cov_stamped_ptr := Some supplied_pose,
            published := [PosePublished supplied_pose]\<rparr>)"
    using initial_pose_handler_outcomes [OF f1, of ?ok] by (simp add: scenario_node_def)
  have z: "initialPoseReceived ?ok scenario_node supplied_pose = Inl NullPointerDereference"
    using initial_pose_handler_outcomes [OF f, of ?ok]
    by (simp add: scenario_node_gate scenario_node_fields)
  have m3: "map_recieved ?s3" "last_scan_ptr ?s3 = Some lidar_scan"
    "scan_in_base_frame ?ok ?s3 lidar_scan = None"
    by (simp_all add: scenario_node_gate lidar_scan_not_resolved scenario_node_fields)
  have b: "initialPoseReceived ?ok ?s3 supplied_pose =
     Inr (scenario_node\<lparr>last_scan_ptr := Some lidar_scan,
            corrent_pose_with_cov_stamped_ptr := Some supplied_pose,
            published := [PosePublished supplied_pose],
            warnings := [CouldNotTransformCloud]\<rparr>)"
    using initial_pose_handler_outcomes [OF f3, of ?ok] m3 by (simp add: scenario_node_def)
  have m4: "map_recieved ?s4" "last_scan_ptr ?s4 = Some scenario_scan"
    by (simp_all add: scenario_node_gate)
  have b4: "\<And>env. scan_in_base_frame env ?s4 scenario_scan = Some (pc_points scenario_scan)"
    by (simp add: scenario_scan_in_base_frame scenario_node_fields)
  have n: "\<not> hasConverged (align ?nc (input_source ?nc ?s4 scenario_scan (pc_points scenario_scan))
      (init_guess supplied_pose))"
    by (simp add: stub_simps)
  have c: "initialPoseReceived ?nc ?s4 supplied_pose =
     Inr (scenario_node\<lparr>last_scan_ptr := Some scenario_scan,
            corrent_pose_with_cov_stamped_ptr := Some supplied_pose,
            published := [PosePublished supplied_pose],
            warnings := [RegistrationDidNotConverge]\<rparr>)"
    using initial_pose_handler_outcomes [OF f4, of ?nc] m4 b4 [of ?nc] n by (simp add: scenario_node_def)
  have y: "hasConverged (align ?ok (input_source ?ok ?s4 scenario_scan (pc_points scenario_scan))
      (init_guess supplied_pose))"
    by (simp add: stub_simps)
  have u: "global_frame_id ?s4 = ''map''" by (simp add: scenario_node_fields)
  have d0: "pwc_pose (pcs_pose supplied_pose) \<noteq> pwc_pose (pcs_pose relocalised_pose)"
    by (simp add: supplied_pose_def relocalised_pose_def)
  have mb: "\<And>F. map_to_base_link_stamped ?s4 scenario_scan F =
      map_to_base_link_stamped scenario_node scenario_scan F"
    by (simp add: map_to_base_link_stamped_def)
  from initial_pose_handler_outcomes [OF f4, of ?ok] m4 b4 [of ?ok] y d0
  have d: "\<exists>s'. initialPoseReceived ?ok ?s4 supplied_pose = Inr s' \<and>
      initialpose_recieved s' \<and>
      corrent_pose_with_cov_stamped_ptr s' = Some relocalised_pose \<and>
      published s' =
        [PosePublished supplied_pose, PosePublished relocalised_pose,
         TransformSent (map_to_base_link_stamped scenario_node scenario_scan
           (getFinalTransformation (stub_result True 0.01))),
         PathPublished (path_ptr s')] \<and>
      map ps_pose (poses (path_ptr s')) = [pwc_pose (pcs_pose relocalised_pose)] \<and>
      pwc_pose (pcs_pose supplied_pose) \<notin> set (map ps_pose (poses (path_ptr s')))"
    by (auto simp add: stub_simps supplied_updated_estimate [OF u] scenario_node_fields
        pose_of_stub_result mb)
  from f z a b c d show ?thesis by blast
qed

text \<open>
  The activation path does append: the pose configured as initial pose is in the trajectory,
  right after the poses that were there, whenever that path returns.
\<close>

lemma cloudReceived_path_prefix:
  assumes "cloudReceived env s m = Inr s'"
  shows "take (length (poses (path_ptr s))) (poses (path_ptr s')) = poses (path_ptr s)"
  using assms
  by (auto simp add: cloudReceived_def Let_def accept_result_trajectory
      split: if_splits option.splits)

lemma initialPoseReceived_path_prefix:
  assumes "initialPoseReceived env s msg = Inr s'"
  shows "take (length (poses (path_ptr s))) (poses (path_ptr s')) = poses (path_ptr s)"
proof (cases "frame_id (pcs_header msg) = global_frame_id s")
  case True
  then show ?thesis
    using assms cloudReceived_path_prefix [of env
        "s\<lparr>initialpose_recieved := True, corrent_pose_with_cov_stamped_ptr := Some msg,
           published := published s @ [PosePublished msg]\<rparr>" "last_scan_ptr s" s']
    by (simp add: initialPoseReceived_def)
next
  case False
  then show ?thesis using assms by (auto simp add: initialPoseReceived_def)
qed

lemma on_activate_appends_configured_pose:
  assumes "set_initial_pose par" and "on_activate_initial_pose env par now s = Inr s'"
  shows "take (Suc (length (poses (path_ptr s)))) (poses (path_ptr s')) =
           poses (path_ptr s) @
             [\<lparr>ps_header = \<lparr>stamp = now, frame_id = global_frame_id s\<rparr>,
               ps_pose =
                 \<lparr>position = \<lparr>v_x = initial_pose_x par, v_y = initial_pose_y par,
                               v_z = initial_pose_z par\<rparr>,
                  orientation = \<lparr>q_x = initial_pose_qx par, q_y = initial_pose_qy par,
                                  q_z = initial_pose_qz par, q_w = initial_pose_qw par\<rparr>\<rparr>\<rparr>]"
  using assms initialPoseReceived_path_prefix [of env
      "s\<lparr>path_ptr := (path_ptr s)\<lparr>poses := poses (path_ptr s) @
         [\<lparr>ps_header = \<lparr>stamp = now, frame_id = global_frame_id s\<rparr>,
           ps_pose =
             \<lparr>position = \<lparr>v_x = initial_pose_x par, v_y = initial_pose_y par,
                           v_z = initial_pose_z par\<rparr>,
              orientation = \<lparr>q_x = initial_pose_qx par, q_y = initial_pose_qy par,
                              q_z = initial_pose_qz par, q_w = initial_pose_qw par\<rparr>\<rparr>\<rparr>]\<rparr>\<rparr>"
      _ s']
  by (simp add: on_activate_initial_pose_def Let_def)

subsection \<open>C10: the replay without a remembered scan\<close>

text \<open>
  C10. For an initial pose in the global frame, the handler dereferences a null pointer
  exactly when a map has been received and no scan is remembered: the replay is safe when
  a last scan exists, or when no map has been received (the entry gate of the cycle
  returns before the scan is read).
\<close>

theorem replay_dereferences_null_scan:
  assumes "frame_id (pcs_header msg) = global_frame_id s"
  shows "(initialPoseReceived env s msg = Inl NullPointerDereference) =
           (map_recieved s \<and> last_scan_ptr s = None)"
  using assms
  by (auto simp add: initialPoseReceived_def cloudReceived_def Let_def split: option.splits)

theorem replay_dereferences_null_scan_witness:
  "frame_id (pcs_header scenario_initial_pose) = global_frame_id scenario_node \<and>
   map_recieved scenario_node \<and> last_scan_ptr scenario_node = None \<and>
   initialPoseReceived (stub_collaborators True 0.01 None) scenario_node scenario_initial_pose =
     Inl NullPointerDereference \<and>
   last_scan_ptr (scenario_node\<lparr>last_scan_ptr := Some scenario_scan\<rparr>) \<noteq> None \<and>
   initialPoseReceived (stub_collaborators True 0.01 None)
     (scenario_node\<lparr>last_scan_ptr := Some scenario_scan\<rparr>) scenario_initial_pose \<noteq>
     Inl NullPointerDereference \<and>
   \<not> map_recieved (scenario_node\<lparr>map_recieved := False\<rparr>) \<and>
   initialPoseReceived (stub_collaborators True 0.01 None)
     (scenario_node\<lparr>map_recieved := False\<rparr>) scenario_initial_pose \<noteq>
     Inl NullPointerDereference"
proof -
  have f: "frame_id (pcs_header scenario_initial_pose) = global_frame_id scenario_node"
    by (simp add: scenario_initial_pose_def scenario_node_def)
  have f1: "frame_id (pcs_header scenario_initial_pose) =
      global_frame_id (scenario_node\<lparr>last_scan_ptr := Some scenario_scan\<rparr>)"
    by (simp add: scenario_initial_pose_def scenario_node_def)
  have f2: "frame_id (pcs_header scenario_initial_pose) =
      global_frame_id (scenario_node\<lparr>map_recieved := False\<rparr>)"
    by (simp add: scenario_initial_pose_def scenario_node_def)
  show ?thesis
    using f replay_dereferences_null_scan [OF f, of "stub_collaborators True 0.01 None"]
      replay_dereferences_null_scan [OF f1, of "stub_collaborators True 0.01 None"]
      replay_dereferences_null_scan [OF f2, of "stub_collaborators True 0.01 None"]
    by (simp add: scenario_node_def)
qed

subsection \<open>Rotations and rigid transforms\<close>

text \<open>
  The matrix of a unit quaternion is turned back into that quaternion or its negative, which
  has the same matrix; the matrix \<^verbatim>\<open>setRotation\<close> builds from a quaternion of non-zero
  length is the matrix of the normalised quaternion; such matrices are orthogonal and closed
  under the product with a transpose.
\<close>

lemma pivot_sign:
  fixes p a :: real
  assumes "p \<noteq> 0"
  shows "(4 * a * p) * (0.5 / (2 * \<bar>p\<bar>)) = sgn p * a" and "0.5 * (2 * \<bar>p\<bar>) = sgn p * p"
    and "sgn p * sgn p = 1"
  using assms by (simp_all add: sgn_real_def abs_real_def field_simps)

lemma sqrt_four_square: "sqrt (4 * (p * p)) = 2 * \<bar>p::real\<bar>"
proof -
  have "sqrt (4 * (p * p)) = sqrt ((2 * p)\<^sup>2)" by (simp add: power2_eq_square)
  also have "\<dots> = \<bar>2 * p\<bar>" by (rule real_sqrt_abs)
  finally show ?thesis by (simp add: abs_mult)
qed

lemma quaternion_of_rotation:
  assumes "length2 q = 1"
  shows "\<exists>c. c * c = 1 \<and>
           quaternion_of_matrix (toRotationMatrix q) =
             \<lparr>q_x = c * q_x q, q_y = c * q_y q, q_z = c * q_z q, q_w = c * q_w q\<rparr>"
proof -
  define x y z w where "x = q_x q" and "y = q_y q" and "z = q_z q" and "w = q_w q"
  note xyzw = x_def y_def z_def w_def
  have u: "x * x + y * y + z * z + w * w = 1"
    using assms by (simp add: length2_def xyzw)
  define M where "M = toRotationMatrix q"
  have d: "m00 M = 1 - 2 * (y * y) - 2 * (z * z)" "m11 M = 1 - 2 * (x * x) - 2 * (z * z)"
    "m22 M = 1 - 2 * (x * x) - 2 * (y * y)"
    by (simp_all add: M_def toRotationMatrix_def Let_def xyzw)
  have o: "m21 M - m12 M = 4 * x * w" "m02 M - m20 M = 4 * y * w" "m10 M - m01 M = 4 * z * w"
    "m02 M + m20 M = 4 * x * z" "m12 M + m21 M = 4 * y * z" "m21 M + m12 M = 4 * y * z"
    "m01 M + m10 M = 4 * x * y" "m10 M + m01 M = 4 * y * x" "m20 M + m02 M = 4 * z * x"
    by (simp_all add: M_def toRotationMatrix_def Let_def xyzw)
  have rw: "m00 M + m11 M + m22 M + 1 = 4 * (w * w)" using u d by simp
  have rz: "m22 M - m00 M - m11 M + 1 = 4 * (z * z)" using d by simp
  have ry: "m11 M - m22 M - m00 M + 1 = 4 * (y * y)" using d by simp
  have rx: "m00 M - m11 M - m22 M + 1 = 4 * (x * x)" using d by simp
  consider (tr) "m00 M + m11 M + m22 M > 0"
    | (pz1) "\<not> m00 M + m11 M + m22 M > 0" "m00 M < m11 M" "m11 M < m22 M"
    | (py) "\<not> m00 M + m11 M + m22 M > 0" "m00 M < m11 M" "\<not> m11 M < m22 M"
    | (pz2) "\<not> m00 M + m11 M + m22 M > 0" "\<not> m00 M < m11 M" "m00 M < m22 M"
    | (px) "\<not> m00 M + m11 M + m22 M > 0" "\<not> m00 M < m11 M" "\<not> m00 M < m22 M"
    by blast
  then show ?thesis
  proof cases
    case tr
    have "4 * (w * w) > 1" using tr rw by simp
    then have nz: "w \<noteq> 0" by auto
    have "quaternion_of_matrix M =
        \<lparr>q_x = sgn w * x, q_y = sgn w * y, q_z = sgn w * z, q_w = sgn w * w\<rparr>"
      using tr nz by (simp add: quaternion_of_matrix_def Let_def rw sqrt_four_square o
          sgn_real_def abs_real_def)
    then show ?thesis using pivot_sign(3) [OF nz] unfolding M_def xyzw by blast
  next
    case pz1
    have "y * y < z * z" using pz1(3) d by simp
    then have nz: "z \<noteq> 0" by auto
    have "quaternion_of_matrix M =
        \<lparr>q_x = sgn z * x, q_y = sgn z * y, q_z = sgn z * z, q_w = sgn z * w\<rparr>"
      using pz1 nz by (simp add: quaternion_of_matrix_def Let_def rz sqrt_four_square o
          sgn_real_def abs_real_def)
    then show ?thesis using pivot_sign(3) [OF nz] unfolding M_def xyzw by blast
  next
    case py
    have "x * x < y * y" using py(2) d by simp
    then have nz: "y \<noteq> 0" by auto
    have "quaternion_of_matrix M =
        \<lparr>q_x = sgn y * x, q_y = sgn y * y, q_z = sgn y * z, q_w = sgn y * w\<rparr>"
      using py nz by (simp add: quaternion_of_matrix_def Let_def ry sqrt_four_square o
          sgn_real_def abs_real_def)
    then show ?thesis using pivot_sign(3) [OF nz] unfolding M_def xyzw by blast
  next
    case pz2
    have "x * x < z * z" using pz2(3) d by simp
    then have nz: "z \<noteq> 0" by auto
    have "quaternion_of_matrix M =
        \<lparr>q_x = sgn z * x, q_y = sgn z * y, q_z = sgn z * z, q_w = sgn z * w\<rparr>"
      using pz2 nz by (simp add: quaternion_of_matrix_def Let_def rz sqrt_four_square o
          sgn_real_def abs_real_def)
    then show ?thesis using pivot_sign(3) [OF nz] unfolding M_def xyzw by blast
  next
    case px
    have "4 * (w * w) \<le> 1" using px(1) rw by simp
    moreover have "y * y \<le> x * x" "z * z \<le> x * x" using px(2,3) d by simp_all
    ultimately have "x * x > 0" using u by linarith
    then have nz: "x \<noteq> 0" by auto
    have "quaternion_of_matrix M =
        \<lparr>q_x = sgn x * x, q_y = sgn x * y, q_z = sgn x * z, q_w = sgn x * w\<rparr>"
      using px nz by (simp add: quaternion_of_matrix_def Let_def rx sqrt_four_square o
          sgn_real_def abs_real_def)
    then show ?thesis using pivot_sign(3) [OF nz] unfolding M_def xyzw by blast
  qed
qed

lemma setRotation_signed_unit:
  assumes "c * c = 1" and "length2 q = 1"
  shows "setRotation \<lparr>q_x = c * q_x q, q_y = c * q_y q, q_z = c * q_z q, q_w = c * q_w q\<rparr> =
           toRotationMatrix q"
proof -
  have "(c - 1) * (c + 1) = 0" using assms(1) by (simp add: algebra_simps)
  then have "c = 1 \<or> c = - 1" by auto
  then show ?thesis
    using assms(2)
    by (auto simp add: setRotation_def toRotationMatrix_def length2_def Let_def)
qed

lemma setRotation_quaternion_of_rotation:
  assumes "length2 q = 1"
  shows "setRotation (quaternion_of_matrix (toRotationMatrix q)) = toRotationMatrix q"
  using quaternion_of_rotation [OF assms] setRotation_signed_unit [OF _ assms] by auto

lemma rot_mul_conj:
  assumes "length2 a = 1" and "length2 b = 1"
  shows "mat_mul (toRotationMatrix a) (transpose3 (toRotationMatrix b)) =
           toRotationMatrix (quat_mul a \<lparr>q_x = - q_x b, q_y = - q_y b, q_z = - q_z b, q_w = q_w b\<rparr>)"
proof -
  define ax ay az aw where "ax = q_x a" and "ay = q_y a" and "az = q_z a" and "aw = q_w a"
  define bx "by" bz bw where "bx = q_x b" and "by = q_y b" and "bz = q_z b" and "bw = q_w b"
  note v = ax_def ay_def az_def aw_def bx_def by_def bz_def bw_def
  have ua: "ax * ax + ay * ay + az * az + aw * aw = 1"
    and ub: "bx * bx + by * by + bz * bz + bw * bw = 1"
    using assms by (simp_all add: length2_def v)
  show ?thesis
    unfolding mat_mul_def transpose3_def toRotationMatrix_def quat_mul_def Let_def
    apply (simp add: v [symmetric])
    apply (intro conjI)
    using ua ub apply algebra
    using ua ub apply algebra
    using ua ub apply algebra
    using ua ub apply algebra
    using ua ub apply algebra
    using ua ub apply algebra
    using ua ub apply algebra
    using ua ub apply algebra
    using ua ub apply algebra
    done
qed

lemma length2_pos: "length2 r \<noteq> 0 \<Longrightarrow> 0 < length2 r"
proof -
  have "0 \<le> length2 r" by (simp add: length2_def)
  then show "length2 r \<noteq> 0 \<Longrightarrow> 0 < length2 r" by simp
qed

lemma setRotation_normalised:
  assumes "length2 r \<noteq> 0"
  shows "\<exists>b. length2 b = 1 \<and> setRotation r = toRotationMatrix b"
proof -
  let ?n = "sqrt (length2 r)"
  have p: "0 < length2 r" using assms by (rule length2_pos)
  then have n: "?n * ?n = length2 r" "?n \<noteq> 0" by simp_all
  let ?b = "\<lparr>q_x = q_x r / ?n, q_y = q_y r / ?n, q_z = q_z r / ?n, q_w = q_w r / ?n\<rparr>"
  have sq: "\<And>u v. (u / ?n) * (v / ?n) = u * v / length2 r"
    using n by (simp add: field_simps)
  have e: "q_x r * q_x r + q_y r * q_y r + q_z r * q_z r + q_w r * q_w r = length2 r"
    by (simp add: length2_def)
  have "length2 ?b =
      (q_x r * q_x r + q_y r * q_y r + q_z r * q_z r + q_w r * q_w r) / length2 r"
    unfolding length2_def [of ?b] using p by (simp add: sq add_divide_distrib)
  then have 1: "length2 ?b = 1" using assms by (simp add: e)
  have 2: "setRotation r = toRotationMatrix ?b"
    using p by (simp add: setRotation_def toRotationMatrix_def Let_def sq mult.assoc)
      (simp add: mult_ac)
  from 1 2 show ?thesis by blast
qed

lemma rotation_orthogonal:
  assumes "length2 b = 1"
  shows "mat_mul (transpose3 (toRotationMatrix b)) (toRotationMatrix b) = identity3"
proof -
  define bx "by" bz bw where "bx = q_x b" and "by = q_y b" and "bz = q_z b" and "bw = q_w b"
  note v = bx_def by_def bz_def bw_def
  have ub: "bx * bx + by * by + bz * bz + bw * bw = 1"
    using assms by (simp add: length2_def v)
  show ?thesis
    unfolding mat_mul_def transpose3_def toRotationMatrix_def identity3_def Let_def
    apply (simp add: v [symmetric])
    apply (intro conjI)
    using ub apply algebra
    using ub apply algebra
    using ub apply algebra
    using ub apply algebra
    using ub apply algebra
    using ub apply algebra
    using ub apply algebra
    using ub apply algebra
    using ub apply algebra
    done
qed

lemma length2_mul_conj:
  assumes "length2 a = 1" and "length2 b = 1"
  shows "length2 (quat_mul a \<lparr>q_x = - q_x b, q_y = - q_y b, q_z = - q_z b, q_w = q_w b\<rparr>) = 1"
proof -
  have "length2 (quat_mul a \<lparr>q_x = - q_x b, q_y = - q_y b, q_z = - q_z b, q_w = q_w b\<rparr>) =
      length2 a * length2 b"
    by (simp add: length2_def quat_mul_def algebra_simps)
  then show ?thesis using assms by simp
qed

lemma mat_mul_assoc: "mat_mul (mat_mul a b) c = mat_mul a (mat_mul b c)"
  by (simp add: mat_mul_def algebra_simps)

lemma mat_mul_identity3: "mat_mul a identity3 = a"
  by (simp add: mat_mul_def identity3_def)

lemma mat_vec_mul: "mat_vec (mat_mul a b) v = mat_vec a (mat_vec b v)"
  by (simp add: mat_mul_def mat_vec_def algebra_simps)

lemma vec_add_neg_cancel: "vec_add v (vec_add (vec_neg v) t) = t"
  by (simp add: vec_add_def vec_neg_def)

lemma mat_vec_vec_neg: "mat_vec a (vec_neg v) = vec_neg (mat_vec a v)"
  by (simp add: mat_vec_def vec_neg_def algebra_simps)

lemma tf2_mul_inverse_cancel:
  assumes "mat_mul (transpose3 (m_basis b)) (m_basis b) = identity3"
  shows "tf2_mul (tf2_mul a (tf2_inverse b)) b = a"
proof -
  have 1: "mat_mul (mat_mul (m_basis a) (transpose3 (m_basis b))) (m_basis b) = m_basis a"
    by (simp add: mat_mul_assoc assms mat_mul_identity3)
  have 2: "vec_add (mat_vec (mat_mul (m_basis a) (transpose3 (m_basis b))) (m_origin b))
       (vec_add (mat_vec (m_basis a) (mat_vec (transpose3 (m_basis b)) (vec_neg (m_origin b))))
          (m_origin a)) = m_origin a"
    by (simp add: mat_vec_mul mat_vec_vec_neg vec_add_neg_cancel)
  show ?thesis
    by (simp add: tf2_mul_def tf2_inverse_def Let_def 1 2)
qed

lemma tf2_fromMsg_toMsg:
  assumes "length2 u = 1" and "m_basis t = toRotationMatrix u"
  shows "tf2_fromMsg (tf2_toMsg t) = t"
  using assms by (simp add: tf2_fromMsg_def tf2_toMsg_def setRotation_quaternion_of_rotation)

lemma length2_identity: "length2 identity_quaternion = 1"
  by (simp add: length2_def identity_quaternion_def)

lemma toRotationMatrix_identity: "toRotationMatrix identity_quaternion = identity3"
  by (simp add: toRotationMatrix_def identity_quaternion_def identity3_def)

lemma map_to_odom_chain:
  assumes "length2 q = 1" and "block33 F = toRotationMatrix q"
    and "length2 (rotation (ts_transform odom_msg)) \<noteq> 0"
  shows "tf2_mul
           (tf2_fromMsg (ts_transform
              (map_to_odom_stamped s msg (map_to_base_link_stamped s msg F) odom_msg)))
           (tf2_fromMsg (ts_transform odom_msg)) =
         \<lparr>m_basis = block33 F, m_origin = col3 F\<rparr>"
proof -
  let ?A = "tf2_fromMsg (ts_transform (map_to_base_link_stamped s msg F))"
  let ?B = "tf2_fromMsg (ts_transform odom_msg)"
  let ?T = "tf2_mul ?A (tf2_inverse ?B)"
  have A: "?A = \<lparr>m_basis = block33 F, m_origin = col3 F\<rparr>"
    by (simp add: tf2_fromMsg_def map_to_base_link_stamped_def assms(2)
        setRotation_quaternion_of_rotation [OF assms(1)])
  obtain b where b: "length2 b = 1" "setRotation (rotation (ts_transform odom_msg)) = toRotationMatrix b"
    using setRotation_normalised [OF assms(3)] by blast
  have B: "m_basis ?B = toRotationMatrix b" by (simp add: tf2_fromMsg_def b(2))
  have orth: "mat_mul (transpose3 (m_basis ?B)) (m_basis ?B) = identity3"
    unfolding B by (rule rotation_orthogonal [OF b(1)])
  let ?u = "quat_mul q \<lparr>q_x = - q_x b, q_y = - q_y b, q_z = - q_z b, q_w = q_w b\<rparr>"
  have u: "length2 ?u = 1" by (rule length2_mul_conj [OF assms(1) b(1)])
  have "m_basis ?T = mat_mul (m_basis ?A) (transpose3 (m_basis ?B))"
    by (simp add: tf2_mul_def tf2_inverse_def Let_def)
  also have "\<dots> = mat_mul (toRotationMatrix q) (transpose3 (toRotationMatrix b))"
    unfolding B by (simp add: A assms(2))
  also have "\<dots> = toRotationMatrix ?u" by (rule rot_mul_conj [OF assms(1) b(1)])
  finally have T: "m_basis ?T = toRotationMatrix ?u" .
  have m: "ts_transform (map_to_odom_stamped s msg (map_to_base_link_stamped s msg F) odom_msg) =
      tf2_toMsg ?T"
    by (simp add: map_to_odom_stamped_def Let_def)
  have "tf2_mul (tf2_fromMsg (tf2_toMsg ?T)) ?B = tf2_mul ?T ?B"
    by (simp only: tf2_fromMsg_toMsg [OF u T])
  also have "\<dots> = ?A" by (rule tf2_mul_inverse_cancel [OF orth])
  finally show ?thesis unfolding m A .
qed

lemma map_to_odom_stamped_frames:
  "frame_id (ts_header (map_to_odom_stamped s msg mb ob)) = global_frame_id s"
  "child_frame_id (map_to_odom_stamped s msg mb ob) = odom_frame_id s"
  by (simp_all add: map_to_odom_stamped_def Let_def)

lemma accept_result_decoupled:
  assumes "enable_map_odom_tf s"
    and "lookupTransform env (odom_frame_id s) (base_frame_id s) (stamp (pc_header msg)) = Some ob"
  shows "published (accept_result env s msg F cur) =
           published s @
             [PosePublished (updated_estimate s msg F cur),
              TransformSent (map_to_odom_stamped s msg (map_to_base_link_stamped s msg F) ob),
              PathPublished (path_ptr (accept_result env s msg F cur))]"
  using assms
  by (simp add: accept_result_def record_pose_def map_to_odom_stamped_def Let_def)

subsection \<open>C1: the transform chain\<close>

text \<open>
  C1. In an accepted cycle with the map-to-odom transform enabled and the odom-to-base
  lookup successful, the cycle publishes the pose, then one transform from the global frame
  to the odom frame, then the path; and that transform, read back from the message and
  composed with the looked-up odom-to-base transform, is the global-to-base transform of
  the registration result. The result's rotation block is taken to be a rotation (the
  matrix of a unit quaternion) and the looked-up rotation a quaternion of non-zero length.
  Over the reals the two sides are equal.
\<close>

theorem transform_chain_identity:
  assumes "map_recieved s" and "initialpose_recieved s"
    and "corrent_pose_with_cov_stamped_ptr s = Some cur"
    and "scan_in_base_frame env s msg = Some cloud"
    and "res = align env (input_source env s msg cloud) (init_guess cur)"
    and "hasConverged res"
    and "enable_map_odom_tf s"
    and "lookupTransform env (odom_frame_id s) (base_frame_id s) (stamp (pc_header msg)) =
           Some odom_to_base"
    and "block33 (getFinalTransformation res) = toRotationMatrix q" and "length2 q = 1"
    and "length2 (rotation (ts_transform odom_to_base)) \<noteq> 0"
  shows "\<exists>s' estimate map_to_odom.
           cloudReceived env s (Some msg) = Inr s' \<and>
           published s' = published s @
             [PosePublished estimate, TransformSent map_to_odom, PathPublished (path_ptr s')] \<and>
           frame_id (ts_header map_to_odom) = global_frame_id s \<and>
           child_frame_id map_to_odom = odom_frame_id s \<and>
           tf2_mul (tf2_fromMsg (ts_transform map_to_odom))
               (tf2_fromMsg (ts_transform odom_to_base)) =
             \<lparr>m_basis = block33 (getFinalTransformation res),
              m_origin = col3 (getFinalTransformation res)\<rparr>"
proof -
  let ?F = "getFinalTransformation res"
  let ?sw = "if getFitnessScore res > score_threshold s
             then s\<lparr>warnings := warnings s @ [FitnessScoreOver (score_threshold s)]\<rparr> else s"
  let ?g = "map_to_odom_stamped ?sw msg (map_to_base_link_stamped ?sw msg ?F) odom_to_base"
  have r: "cloudReceived env s (Some msg) = Inr (accept_result env ?sw msg ?F cur)"
    using assms(5,6) by (simp add: cloudReceived_cycle [OF assms(1-4)] Let_def)
  have e: "enable_map_odom_tf ?sw" using assms(7) by simp
  have l: "lookupTransform env (odom_frame_id ?sw) (base_frame_id ?sw) (stamp (pc_header msg)) =
      Some odom_to_base"
    using assms(8) by simp
  have p: "published (accept_result env ?sw msg ?F cur) =
      published s @ [PosePublished (updated_estimate ?sw msg ?F cur), TransformSent ?g,
        PathPublished (path_ptr (accept_result env ?sw msg ?F cur))]"
    using accept_result_decoupled [OF e l, of ?F cur] by simp
  have f: "frame_id (ts_header ?g) = global_frame_id s" "child_frame_id ?g = odom_frame_id s"
    by (simp_all add: map_to_odom_stamped_frames)
  have c: "tf2_mul (tf2_fromMsg (ts_transform ?g)) (tf2_fromMsg (ts_transform odom_to_base)) =
      \<lparr>m_basis = block33 ?F, m_origin = col3 ?F\<rparr>"
    by (rule map_to_odom_chain [OF assms(10,9,11)])
  show ?thesis using r p f c by blast
qed

theorem transform_chain_identity_witness:
  "enable_map_odom_tf (scenario_node\<lparr>enable_map_odom_tf := True\<rparr>) \<and>
   lookupTransform (stub_collaborators True 0.01 (Some odom_to_base_link)) ''odom'' ''base_link''
     (stamp (pc_header scenario_scan)) = Some odom_to_base_link \<and>
   length2 (rotation (ts_transform odom_to_base_link)) \<noteq> 0 \<and>
   (\<exists>s' estimate map_to_odom.
      cloudReceived (stub_collaborators True 0.01 (Some odom_to_base_link))
        (scenario_node\<lparr>enable_map_odom_tf := True\<rparr>) (Some scenario_scan) = Inr s' \<and>
      published s' =
        [PosePublished estimate, TransformSent map_to_odom, PathPublished (path_ptr s')] \<and>
      frame_id (ts_header map_to_odom) = ''map'' \<and>
      child_frame_id map_to_odom = ''odom'' \<and>
      tf2_mul (tf2_fromMsg (ts_transform map_to_odom))
          (tf2_fromMsg (ts_transform odom_to_base_link)) =
        \<lparr>m_basis = identity3, m_origin = \<lparr>v_x = 1, v_y = 0, v_z = 0\<rparr>\<rparr>)"
proof -
  let ?env = "stub_collaborators True 0.01 (Some odom_to_base_link)"
  let ?s = "scenario_node\<lparr>enable_map_odom_tf := True\<rparr>"
  let ?res = "align ?env (input_source ?env ?s scenario_scan (pc_points scenario_scan))
      (init_guess scenario_initial_pose)"
  have g: "map_recieved ?s" "initialpose_recieved ?s"
    "corrent_pose_with_cov_stamped_ptr ?s = Some scenario_initial_pose"
    by (simp_all add: scenario_node_def)
  have b: "scan_in_base_frame ?env ?s scenario_scan = Some (pc_points scenario_scan)"
    by (simp add: scenario_scan_in_base_frame scenario_node_def)
  have c: "hasConverged ?res" by (simp add: stub_simps)
  have e: "enable_map_odom_tf ?s" by simp
  have l: "lookupTransform ?env (odom_frame_id ?s) (base_frame_id ?s)
      (stamp (pc_header scenario_scan)) = Some odom_to_base_link"
    by (simp add: stub_simps)
  have q: "block33 (getFinalTransformation ?res) = toRotationMatrix identity_quaternion"
    by (simp add: stub_simps stub_result_def toRotationMatrix_identity)
  have n: "length2 (rotation (ts_transform odom_to_base_link)) \<noteq> 0"
    by (simp add: odom_to_base_link_def length2_identity)
  have F: "\<And>conv fit. block33 (getFinalTransformation (stub_result conv fit)) = identity3"
    "\<And>conv fit. col3 (getFinalTransformation (stub_result conv fit)) =
       \<lparr>v_x = 1, v_y = 0, v_z = 0\<rparr>"
    by (simp_all add: stub_result_def)
  show ?thesis
    using e n transform_chain_identity [OF g b refl c e l q length2_identity n]
    by (simp add: stub_simps scenario_node_fields F)
qed

subsection \<open>C9: the order of the two filters\<close>

lemma sqrt_25: "sqrt 25 = 5" and sqrt_100: "sqrt 100 = 10"
  by (rule real_sqrt_unique; simp)+

lemma two_point_voxel_then_range:
  "range_filter 1 100 (centroid_voxel_grid 10 (pc_points two_point_scan)) =
     [\<lparr>p_x = 3, p_y = 4, p_z = 0, intensity = 1\<rparr>]"
  by (simp add: range_filter_def centroid_voxel_grid_def voxel_index_def centroid_def
      two_point_scan_def sqrt_25)

lemma two_point_range_then_voxel:
  "centroid_voxel_grid 10 (range_filter 1 100 (pc_points two_point_scan)) =
     [\<lparr>p_x = 6, p_y = 8, p_z = 0, intensity = 1\<rparr>]"
  by (simp add: range_filter_def centroid_voxel_grid_def voxel_index_def centroid_def
      two_point_scan_def sqrt_100)

lemma two_point_scan_in_base_frame:
  "base_frame_id s = ''base_link'' \<Longrightarrow>
   scan_in_base_frame env s two_point_scan = Some (pc_points two_point_scan)"
  by (simp add: scan_in_base_frame_def two_point_scan_def)

lemma probe_input_source:
  "input_source (probe_collaborators expected) scenario_node two_point_scan
     (pc_points two_point_scan) = [\<lparr>p_x = 3, p_y = 4, p_z = 0, intensity = 1\<rparr>]"
  by (simp add: input_source_def probe_collaborators_def scenario_node_fields
      two_point_voxel_then_range)

text \<open>
  C9, as the code has it. In a cycle that reaches the registration, the scan (deskewed when
  inertial fusion is on) goes through the voxel grid filter first; of the downsampled points
  those with \<open>scan_min_range < sqrt (x\<^sup>2 + y\<^sup>2) < scan_max_range\<close>, both bounds excluded, are
  the cloud the registration is run on, and the rest of the cycle depends on its answer for
  that cloud.
\<close>

theorem downsampled_then_range_filtered:
  assumes "map_recieved s" and "initialpose_recieved s"
    and "corrent_pose_with_cov_stamped_ptr s = Some cur"
    and "scan_in_base_frame env s msg = Some cloud"
  shows "cloudReceived env s (Some msg) =
           (let filtered_cloud =
                  voxel_grid_filter env
                    (if use_imu s
                     then adjustDistortion env cloud (stamp_seconds (stamp (pc_header msg)))
                     else cloud);
                tmp = filter (\<lambda>p. scan_min_range s < sqrt ((p_x p)\<^sup>2 + (p_y p)\<^sup>2) \<and>
                                  sqrt ((p_x p)\<^sup>2 + (p_y p)\<^sup>2) < scan_max_range s)
                        filtered_cloud;
                res = align env tmp (init_guess cur)
            in if \<not> hasConverged res
               then Inr (s\<lparr>warnings := warnings s @ [RegistrationDidNotConverge]\<rparr>)
               else Inr (accept_result env
                           (if getFitnessScore res > score_threshold s
                            then s\<lparr>warnings := warnings s @ [FitnessScoreOver (score_threshold s)]\<rparr>
                            else s)
                           msg (getFinalTransformation res) cur))"
  using assms by (simp add: cloudReceived_cycle input_source_def range_filter_def Let_def)

theorem downsampled_then_range_filtered_witness:
  "scan_in_base_frame (probe_collaborators [\<lparr>p_x = 3, p_y = 4, p_z = 0, intensity = 1\<rparr>])
     scenario_node two_point_scan = Some (pc_points two_point_scan) \<and>
   cloudReceived (probe_collaborators [\<lparr>p_x = 3, p_y = 4, p_z = 0, intensity = 1\<rparr>])
     scenario_node (Some two_point_scan) =
     Inr (accept_result (probe_collaborators [\<lparr>p_x = 3, p_y = 4, p_z = 0, intensity = 1\<rparr>])
            scenario_node two_point_scan (getFinalTransformation (stub_result True 0.01))
            scenario_initial_pose)"
proof -
  let ?env = "probe_collaborators [\<lparr>p_x = 3, p_y = 4, p_z = 0, intensity = 1\<rparr>]"
  have b: "scan_in_base_frame ?env scenario_node two_point_scan = Some (pc_points two_point_scan)"
    by (simp add: two_point_scan_in_base_frame scenario_node_fields)
  have v: "filter (\<lambda>p. 1 < sqrt ((p_x p)\<^sup>2 + (p_y p)\<^sup>2) \<and> sqrt ((p_x p)\<^sup>2 + (p_y p)\<^sup>2) < 100)
      (centroid_voxel_grid 10 (pc_points two_point_scan)) =
      [\<lparr>p_x = 3, p_y = 4, p_z = 0, intensity = 1\<rparr>]"
    using two_point_voxel_then_range by (simp add: range_filter_def)
  have e: "voxel_grid_filter ?env = centroid_voxel_grid 10"
    "\<And>src g. align ?env src g =
       stub_result (src = [\<lparr>p_x = 3, p_y = 4, p_z = 0, intensity = 1\<rparr>]) 0.01"
    by (simp_all add: probe_collaborators_def)
  show ?thesis
    using b v downsampled_then_range_filtered [OF scenario_node_gate b]
    by (simp add: scenario_node_fields e stub_simps Let_def)
qed

text \<open>
  C9 as stated has the range filter first. For a scan of the two points \<open>(0, 0, 0)\<close> and
  \<open>(6, 8, 0)\<close> and a leaf size of 10, the cycle runs the registration on the centroid
  \<open>(3, 4, 0)\<close>; the range filter followed by the voxel grid filter gives \<open>(6, 8, 0)\<close>, and
  a registration that converges on that cloud alone does not converge in the cycle.
\<close>

theorem range_filter_not_first_counterexample:
  "input_source (probe_collaborators [\<lparr>p_x = 6, p_y = 8, p_z = 0, intensity = 1\<rparr>])
      scenario_node two_point_scan (pc_points two_point_scan) =
     [\<lparr>p_x = 3, p_y = 4, p_z = 0, intensity = 1\<rparr>] \<and>
   voxel_grid_filter (probe_collaborators [\<lparr>p_x = 6, p_y = 8, p_z = 0, intensity = 1\<rparr>])
      (range_filter (scan_min_range scenario_node) (scan_max_range scenario_node)
         (pc_points two_point_scan)) =
     [\<lparr>p_x = 6, p_y = 8, p_z = 0, intensity = 1\<rparr>] \<and>
   hasConverged (align (probe_collaborators [\<lparr>p_x = 6, p_y = 8, p_z = 0, intensity = 1\<rparr>])
      [\<lparr>p_x = 6, p_y = 8, p_z = 0, intensity = 1\<rparr>] (init_guess scenario_initial_pose)) \<and>
   cloudReceived (probe_collaborators [\<lparr>p_x = 6, p_y = 8, p_z = 0, intensity = 1\<rparr>])
      scenario_node (Some two_point_scan) =
     Inr (scenario_node\<lparr>warnings := [RegistrationDidNotConverge]\<rparr>)"
proof -
  let ?env = "probe_collaborators [\<lparr>p_x = 6, p_y = 8, p_z = 0, intensity = 1\<rparr>]"
  have b: "scan_in_base_frame ?env scenario_node two_point_scan = Some (pc_points two_point_scan)"
    by (simp add: two_point_scan_in_base_frame scenario_node_fields)
  have 1: "input_source ?env scenario_node two_point_scan (pc_points two_point_scan) =
      [\<lparr>p_x = 3, p_y = 4, p_z = 0, intensity = 1\<rparr>]"
    by (rule probe_input_source)
  have 2: "voxel_grid_filter ?env
      (range_filter (scan_min_range scenario_node) (scan_max_range scenario_node)
         (pc_points two_point_scan)) = [\<lparr>p_x = 6, p_y = 8, p_z = 0, intensity = 1\<rparr>]"
    by (simp add: probe_collaborators_def scenario_node_fields two_point_range_then_voxel)
  have 3: "hasConverged (align ?env [\<lparr>p_x = 6, p_y = 8, p_z = 0, intensity = 1\<rparr>]
      (init_guess scenario_initial_pose))"
    by (simp add: probe_collaborators_def stub_simps)
  have 4: "cloudReceived ?env scenario_node (Some two_point_scan) =
      Inr (scenario_node\<lparr>warnings := [RegistrationDidNotConverge]\<rparr>)"
    by (simp add: cloudReceived_cycle [OF scenario_node_gate b] 1 Let_def)
      (simp add: probe_collaborators_def stub_simps scenario_node_fields)
  from 1 2 3 4 show ?thesis by blast
qed

subsection \<open>C8: the prediction from an odometry sample\<close>

lemma mat_vec_scale:
  "mat_vec (mat_scale a c) v = mat_vec a \<lparr>v_x = c * v_x v, v_y = c * v_y v, v_z = c * v_z v\<rparr>"
  by (simp add: mat_vec_def mat_scale_def algebra_simps)

lemma getRPY_identity: "getRPY (setRotation identity_quaternion) = (0, 0, 0)"
  by (simp add: getRPY_def setRotation_def identity_quaternion_def length2_def atan2_def Let_def)

lemma turning_dt: "dt_odom scenario_node (odom_sample 1 0 tw) = 1"
  by (simp add: dt_odom_def odom_sample_def stamp_seconds_def scenario_node_fields)

lemma odom_sample_twist: "odom_twist (odom_sample a b tw) = tw"
  by (simp add: odom_sample_def)

lemma turning_twist_fields:
  "twist_linear turning_twist = \<lparr>v_x = 1, v_y = 0, v_z = 0\<rparr>"
  "twist_angular turning_twist = \<lparr>v_x = 0, v_y = 0, v_z = pi\<rparr>"
  by (simp_all add: turning_twist_def)

lemma half_turn_quaternion:
  "quat_mul (quat_mul (AngleAxis_UnitX 0) (AngleAxis_UnitY 0)) (AngleAxis_UnitZ pi) =
     \<lparr>q_x = 0, q_y = 0, q_z = 1, q_w = 0\<rparr>"
  by (simp add: quat_mul_def AngleAxis_UnitX_def AngleAxis_UnitY_def AngleAxis_UnitZ_def)

lemma half_turn_matrix:
  "toRotationMatrix \<lparr>q_x = 0, q_y = 0, q_z = 1, q_w = 0\<rparr> =
     \<lparr>m00 = - 1, m01 = 0, m02 = 0, m10 = 0, m11 = - 1, m12 = 0, m20 = 0, m21 = 0, m22 = 1\<rparr>"
  by (simp add: toRotationMatrix_def Let_def)

text \<open>
  C8, as the code has it. For an odometry sample accepted by the handler (odometry in use,
  an interval from 0 to 1 second, an estimate to update), the orientation of the estimate
  is decomposed into roll, pitch and yaw, each angle is advanced by the angular velocity
  times the interval, and the new orientation is the product of the rotations about X by
  the roll, about Y by the pitch and about Z by the yaw, in this order. The position is
  advanced by the linear velocity times the interval, rotated by the new orientation.
\<close>

theorem odom_prediction:
  assumes "use_odom s" and "0 \<le> dt_odom s msg" and "dt_odom s msg \<le> 1"
    and "corrent_pose_with_cov_stamped_ptr s = Some cur"
    and "getRPY (setRotation (orientation (pwc_pose (pcs_pose cur)))) = (roll, pitch, yaw)"
  shows "\<exists>s' cur'.
           odomReceived s msg = Inr s' \<and>
           corrent_pose_with_cov_stamped_ptr s' = Some cur' \<and>
           orientation (pwc_pose (pcs_pose cur')) =
             quat_mul
               (quat_mul
                  (AngleAxis_UnitX (roll + v_x (twist_angular (odom_twist msg)) * dt_odom s msg))
                  (AngleAxis_UnitY (pitch + v_y (twist_angular (odom_twist msg)) * dt_odom s msg)))
               (AngleAxis_UnitZ (yaw + v_z (twist_angular (odom_twist msg)) * dt_odom s msg)) \<and>
           position (pwc_pose (pcs_pose cur')) =
             vec_add (position (pwc_pose (pcs_pose cur)))
               (mat_vec (toRotationMatrix (orientation (pwc_pose (pcs_pose cur'))))
                  \<lparr>v_x = dt_odom s msg * v_x (twist_linear (odom_twist msg)),
                   v_y = dt_odom s msg * v_y (twist_linear (odom_twist msg)),
                   v_z = dt_odom s msg * v_z (twist_linear (odom_twist msg))\<rparr>)"
  using assms
  by (simp add: odomReceived_def dt_odom_def predict_def Let_def mat_vec_scale)

theorem odom_prediction_witness:
  "use_odom scenario_node \<and>
   0 \<le> dt_odom scenario_node (odom_sample 1 0 turning_twist) \<and>
   dt_odom scenario_node (odom_sample 1 0 turning_twist) \<le> 1 \<and>
   getRPY (setRotation (orientation (pwc_pose (pcs_pose scenario_initial_pose)))) = (0, 0, 0) \<and>
   (\<exists>s' cur'.
      odomReceived scenario_node (odom_sample 1 0 turning_twist) = Inr s' \<and>
      corrent_pose_with_cov_stamped_ptr s' = Some cur' \<and>
      orientation (pwc_pose (pcs_pose cur')) = \<lparr>q_x = 0, q_y = 0, q_z = 1, q_w = 0\<rparr> \<and>
      position (pwc_pose (pcs_pose cur')) = \<lparr>v_x = - 1, v_y = 0, v_z = 0\<rparr>)"
proof -
  let ?msg = "odom_sample 1 0 turning_twist"
  have u: "use_odom scenario_node" by (rule scenario_node_fields)
  have d: "0 \<le> dt_odom scenario_node ?msg" "dt_odom scenario_node ?msg \<le> 1"
    by (simp_all add: turning_dt)
  have r: "getRPY (setRotation (orientation (pwc_pose (pcs_pose scenario_initial_pose)))) =
      (0, 0, 0)"
    by (simp add: scenario_initial_pose_def getRPY_identity)
  from odom_prediction [OF u d scenario_node_gate(3) r] obtain s' cur' where
    a: "odomReceived scenario_node ?msg = Inr s'"
      "corrent_pose_with_cov_stamped_ptr s' = Some cur'"
    and o: "orientation (pwc_pose (pcs_pose cur')) =
        quat_mul (quat_mul (AngleAxis_UnitX 0) (AngleAxis_UnitY 0)) (AngleAxis_UnitZ pi)"
    and p: "position (pwc_pose (pcs_pose cur')) =
        vec_add (position (pwc_pose (pcs_pose scenario_initial_pose)))
          (mat_vec (toRotationMatrix (orientation (pwc_pose (pcs_pose cur'))))
             \<lparr>v_x = 1, v_y = 0, v_z = 0\<rparr>)"
    by (auto simp add: turning_dt odom_sample_twist turning_twist_fields)
  have o': "orientation (pwc_pose (pcs_pose cur')) = \<lparr>q_x = 0, q_y = 0, q_z = 1, q_w = 0\<rparr>"
    using o by (simp add: half_turn_quaternion)
  have p': "position (pwc_pose (pcs_pose cur')) = \<lparr>v_x = - 1, v_y = 0, v_z = 0\<rparr>"
    using p by (simp add: o' half_turn_matrix mat_vec_def vec_add_def scenario_initial_pose_def)
  show ?thesis using u d r a o' p' by blast
qed

text \<open>
  C8 as stated rotates the velocity by the orientation before the update. From the identity
  orientation at the origin, one second of the twist above moves the estimate to
  \<open>(-1, 0, 0)\<close>; the orientation before the update would move it to \<open>(1, 0, 0)\<close>.
\<close>

theorem odom_prediction_frame_counterexample:
  "(case odomReceived scenario_node (odom_sample 1 0 turning_twist) of
      Inl e \<Rightarrow> False
    | Inr s' \<Rightarrow>
        map_option (\<lambda>cur. position (pwc_pose (pcs_pose cur)))
          (corrent_pose_with_cov_stamped_ptr s') = Some \<lparr>v_x = - 1, v_y = 0, v_z = 0\<rparr>) \<and>
   vec_add (position (pwc_pose (pcs_pose scenario_initial_pose)))
     (mat_vec
        (mat_scale (toRotationMatrix (orientation (pwc_pose (pcs_pose scenario_initial_pose))))
           (dt_odom scenario_node (odom_sample 1 0 turning_twist)))
        (twist_linear (odom_twist (odom_sample 1 0 turning_twist)))) =
     \<lparr>v_x = 1, v_y = 0, v_z = 0\<rparr>"
proof -
  let ?msg = "odom_sample 1 0 turning_twist"
  have pr: "predict (pwc_pose (pcs_pose scenario_initial_pose)) turning_twist 1 =
      \<lparr>position = \<lparr>v_x = - 1, v_y = 0, v_z = 0\<rparr>,
       orientation = \<lparr>q_x = 0, q_y = 0, q_z = 1, q_w = 0\<rparr>\<rparr>"
    by (simp add: predict_def scenario_initial_pose_def getRPY_identity turning_twist_fields
        half_turn_quaternion half_turn_matrix mat_vec_def mat_scale_def vec_add_def Let_def)
  have 1: "odomReceived scenario_node ?msg =
      Inr (scenario_node\<lparr>last_odom_received_time := 1,
             corrent_pose_with_cov_stamped_ptr :=
               Some (scenario_initial_pose\<lparr>pcs_pose := (pcs_pose scenario_initial_pose)
                 \<lparr>pwc_pose := predict (pwc_pose (pcs_pose scenario_initial_pose))
                    turning_twist 1\<rparr>\<rparr>)\<rparr>)"
    using turning_dt
    by (simp add: odomReceived_def dt_odom_def Let_def scenario_node_fields scenario_node_gate
        odom_sample_twist)
  have 2: "vec_add (position (pwc_pose (pcs_pose scenario_initial_pose)))
     (mat_vec
        (mat_scale (toRotationMatrix (orientation (pwc_pose (pcs_pose scenario_initial_pose))))
           (dt_odom scenario_node ?msg))
        (twist_linear (odom_twist ?msg))) = \<lparr>v_x = 1, v_y = 0, v_z = 0\<rparr>"
    by (simp add: turning_dt odom_sample_twist turning_twist_fields scenario_initial_pose_def
        toRotationMatrix_identity identity3_def mat_scale_def mat_vec_def vec_add_def)
  show ?thesis unfolding 1 using 2 by (simp add: pr)
qed

end
